theory Spec2Isabelle
  imports Main "HOL-Library.AList"
begin

section \<open>JavaScript values\<close>

text \<open>
  The values that flow through \<^verbatim>\<open>CognitoUser.js\<close>: fields of the user object, decoded
  provider responses, request parameters. \<open>JError m\<close> is an object made by
  \<^verbatim>\<open>new Error(m)\<close>. Numbers are integers only; characters are bytes.
\<close>

datatype jsval =
    JUndefined
  | JNull
  | JBool bool
  | JNum int
  | JStr string
  | JError string
  | JArr "jsval list"
  | JObj "(string \<times> jsval) list"

datatype exn = TypeError | ReferenceError | Error string

text \<open>\<^verbatim>\<open>v == null\<close> holds of \<^verbatim>\<open>null\<close> and \<^verbatim>\<open>undefined\<close>.\<close>

fun nullish :: "jsval \<Rightarrow> bool" where
  "nullish JUndefined = True"
| "nullish JNull = True"
| "nullish _ = False"

text \<open>The truth value of \<^verbatim>\<open>v\<close> in \<^verbatim>\<open>if (v)\<close> and \<^verbatim>\<open>v || w\<close>.\<close>

fun truthy :: "jsval \<Rightarrow> bool" where
  "truthy JUndefined = False"
| "truthy JNull = False"
| "truthy (JBool b) = b"
| "truthy (JNum n) = (n \<noteq> 0)"
| "truthy (JStr s) = (s \<noteq> [])"
| "truthy (JError m) = True"
| "truthy (JArr xs) = True"
| "truthy (JObj kvs) = True"

text \<open>
  The property read \<^verbatim>\<open>o.k\<close> on a value that is not \<^verbatim>\<open>null\<close> or \<^verbatim>\<open>undefined\<close>; on those
  two the read raises a TypeError, which each caller below checks with \<open>nullish\<close> first.
\<close>

fun getProp :: "jsval \<Rightarrow> string \<Rightarrow> jsval" where
  "getProp (JObj kvs) k = (case map_of kvs k of None \<Rightarrow> JUndefined | Some v \<Rightarrow> v)"
| "getProp _ k = JUndefined"

fun hasOwnProperty :: "jsval \<Rightarrow> string \<Rightarrow> bool" where
  "hasOwnProperty (JObj kvs) k = (map_of kvs k \<noteq> None)"
| "hasOwnProperty _ k = False"

text \<open>
  The assignment \<^verbatim>\<open>o[k] = v\<close>. On a primitive value it raises (the module is in strict
  mode). Arrays and errors carry no named properties here, so an assignment to one of them is
  taken to raise as well; \<open>hasOwnProperty\<close> is meant for names other than \<^verbatim>\<open>length\<close> and the
  indices.
\<close>

fun assign :: "jsval \<Rightarrow> string \<Rightarrow> jsval \<Rightarrow> exn + jsval" where
  "assign (JObj kvs) k v = Inr (JObj (AList.update k v kvs))"
| "assign _ k v = Inl TypeError"

function digits :: "nat \<Rightarrow> string" where
  "digits n = (if n < 10 then [''0123456789'' ! n] else digits (n div 10) @ [''0123456789'' ! (n mod 10)])"
  by pat_completeness auto
termination
  by (relation "measure id") auto

definition join :: "string list \<Rightarrow> string" where
  "join xs = (case xs of [] \<Rightarrow> [] | y # ys \<Rightarrow> foldl (\<lambda>acc s. acc @ '','' @ s) y ys)"

text \<open>The conversion \<^verbatim>\<open>String(v)\<close> that \<^verbatim>\<open>'...' + v\<close> and \<^verbatim>\<open>storage.setItem(k, v)\<close> apply.\<close>

fun toStr :: "jsval \<Rightarrow> string" where
  "toStr JUndefined = ''undefined''"
| "toStr JNull = ''null''"
| "toStr (JBool b) = (if b then ''true'' else ''false'')"
| "toStr (JNum n) = (if n < 0 then ''-'' @ digits (nat (- n)) else digits (nat n))"
| "toStr (JStr s) = s"
| "toStr (JError m) = ''Error: '' @ m"
| "toStr (JArr xs) = join (map (\<lambda>x. if nullish x then [] else toStr x) xs)"
| "toStr (JObj kvs) = ''[object Object]''"

text \<open>\<^verbatim>\<open>s.split(c)\<close> and the indexed read \<^verbatim>\<open>parts[i]\<close>, which is \<^verbatim>\<open>undefined\<close> out of range.\<close>

fun split_str :: "char \<Rightarrow> string \<Rightarrow> string list" where
  "split_str c [] = [[]]"
| "split_str c (x # xs) =
     (if x = c then [] # split_str c xs
      else (case split_str c xs of [] \<Rightarrow> [[x]] | y # ys \<Rightarrow> (x # y) # ys))"

definition elemAt :: "string list \<Rightarrow> nat \<Rightarrow> jsval" where
  "elemAt xs i = (if i < length xs then JStr (xs ! i) else JUndefined)"

section \<open>Collaborators outside CognitoUser.js\<close>

text \<open>
  Modelled from the spec: \<^verbatim>\<open>CognitoUserPool\<close> is not among the sources. Spec section 3 gives
  the identity a pool id and a client id, both strings; \<open>paranoia\<close> is the value
  \<^verbatim>\<open>getParanoia()\<close> hands to the SRP helper.
\<close>

record CognitoUserPool =
  userPoolId :: string
  clientId :: string
  paranoia :: jsval

definition getUserPoolId :: "CognitoUserPool \<Rightarrow> string" where
  "getUserPoolId p = userPoolId p"

definition getClientId :: "CognitoUserPool \<Rightarrow> string" where
  "getClientId p = clientId p"

text \<open>
  Modelled from the spec: \<^verbatim>\<open>CognitoUserSession\<close> and the three token classes are not among
  the sources. Spec section 3: a session holds an ID, an access and a refresh token. Each
  field here is what \<^verbatim>\<open>getJwtToken()\<close> (\<^verbatim>\<open>getToken()\<close> for the refresh token) returns.
\<close>

record CognitoUserSession =
  idToken :: jsval
  accessToken :: jsval
  refreshToken :: jsval

text \<open>A part of the signed message: the argument of \<^verbatim>\<open>mac.update\<close> and the codec applied to it.\<close>

datatype part = Utf8 jsval | Base64 jsval

text \<open>
  What the code obtains from classes and libraries that are not in \<^verbatim>\<open>CognitoUser.js\<close>,
  taken as parameters:
  \<^item> \<open>jwt f r\<close>: the token string of the wrapper built from the object \<open>r\<close>, whose
    constructor reads the field \<open>f\<close> (\<^verbatim>\<open>new CognitoIdToken(r).getJwtToken()\<close> for
    \<open>f = ''IdToken''\<close>);
  \<^item> \<open>isValid\<close>: \<^verbatim>\<open>CognitoUserSession.isValid()\<close> at the time of the call;
  \<^item> \<open>largeA g\<close>: \<^verbatim>\<open>getLargeAValue().toString(16)\<close> of the \<^verbatim>\<open>AuthenticationHelper\<close> built
    for the pool name \<open>g\<close>;
  \<^item> \<open>passwordAuthenticationKey g user password B salt\<close>: \<^verbatim>\<open>getPasswordAuthenticationKey\<close>
    of that helper, \<open>B\<close> and \<open>salt\<close> given by the hexadecimal strings they are parsed from;
  \<^item> \<open>hmac key parts\<close>: the base64 text of the HMAC-SHA256 digest, keyed with \<open>key\<close>, of the
    parts in the order of the \<^verbatim>\<open>mac.update\<close> calls;
  \<^item> \<open>nowString\<close>: \<^verbatim>\<open>DateHelper.getNowString()\<close>;
  \<^item> \<open>saltDevices\<close>, \<open>passwordVerifier\<close>, \<open>verifierDevicesBits\<close>, \<open>getRandomPassword\<close>,
    each of the helper's pool name, the device group key and the device key: what the helper
    holds after \<^verbatim>\<open>generateHashDevice\<close>, in the encodings the code applies;
  \<^item> \<open>userAgent\<close>: \<^verbatim>\<open>navigator.userAgent\<close>;
  \<^item> \<open>newCognitoUserAttribute a\<close>: what \<^verbatim>\<open>new CognitoUserAttribute(a)\<close> gives, the object or
    the exception raised; no import of the file binds that name.

  Apart from the last, these functions are total: an exception raised inside a library
  (a codec given a value that is not a string, a storage that is full) is not modelled.
\<close>

record env =
  jwt :: "string \<Rightarrow> jsval \<Rightarrow> jsval"
  isValid :: "CognitoUserSession \<Rightarrow> bool"
  largeA :: "jsval \<Rightarrow> string"
  passwordAuthenticationKey :: "jsval \<Rightarrow> jsval \<Rightarrow> jsval \<Rightarrow> jsval \<Rightarrow> jsval \<Rightarrow> string"
  hmac :: "string \<Rightarrow> part list \<Rightarrow> string"
  nowString :: string
  saltDevices :: "jsval \<Rightarrow> jsval \<Rightarrow> jsval \<Rightarrow> string"
  passwordVerifier :: "jsval \<Rightarrow> jsval \<Rightarrow> jsval \<Rightarrow> string"
  verifierDevicesBits :: "jsval \<Rightarrow> jsval \<Rightarrow> jsval \<Rightarrow> string"
  getRandomPassword :: "jsval \<Rightarrow> jsval \<Rightarrow> jsval \<Rightarrow> jsval"
  userAgent :: jsval
  newCognitoUserAttribute :: "jsval \<Rightarrow> exn + jsval"

section \<open>The provider and the local storage\<close>

text \<open>
  A request is the operation name and the parameter object handed to
  \<^verbatim>\<open>client.makeUnauthenticatedRequest\<close>; a reply is the pair \<^verbatim>\<open>(err, data)\<close> its callback
  receives. The world holds \<^verbatim>\<open>window.localStorage\<close>, the requests sent so far, oldest first,
  and the replies the provider will give, in order. A request sent when no reply is left
  stays unanswered: its callback never runs.
\<close>

record request =
  operation :: string
  params :: jsval

record reply =
  err :: jsval
  data :: jsval

record world =
  storage :: "string \<rightharpoonup> string"
  sent :: "request list"
  script :: "reply list"

definition makeUnauthenticatedRequest :: "string \<Rightarrow> jsval \<Rightarrow> world \<Rightarrow> reply option \<times> world" where
  "makeUnauthenticatedRequest opn ps w =
     (let w' = w\<lparr>sent := sent w @ [\<lparr>operation = opn, params = ps\<rparr>]\<rparr>
      in case script w of
           [] \<Rightarrow> (None, w')
         | r # rs \<Rightarrow> (Some r, w'\<lparr>script := rs\<rparr>))"

definition getItem :: "world \<Rightarrow> string \<Rightarrow> jsval" where
  "getItem w k = (case storage w k of None \<Rightarrow> JNull | Some s \<Rightarrow> JStr s)"

definition setItem :: "string \<Rightarrow> jsval \<Rightarrow> world \<Rightarrow> world" where
  "setItem k v w = w\<lparr>storage := (storage w)(k \<mapsto> toStr v)\<rparr>"

definition removeItem :: "string \<Rightarrow> world \<Rightarrow> world" where
  "removeItem k w = w\<lparr>storage := (storage w)(k := None)\<rparr>"

section \<open>The user object\<close>

text \<open>
  The fields the methods of \<^verbatim>\<open>CognitoUser\<close> read and write. The constructor sets
  \<open>username\<close>, \<open>pool\<close>, \<open>Session\<close>, \<open>signInUserSession\<close> and \<open>authenticationFlowType\<close>; the
  others are \<^verbatim>\<open>undefined\<close> until a method assigns them. \<open>deviceGroupkey\<close>, with a small k,
  is the field that \<^verbatim>\<open>forgetDevice\<close> assigns.
\<close>

record CognitoUser =
  username :: jsval
  pool :: CognitoUserPool
  Session :: jsval
  signInUserSession :: "CognitoUserSession option"
  authenticationFlowType :: jsval
  deviceKey :: jsval
  randomPassword :: jsval
  deviceGroupKey :: jsval
  deviceGroupkey :: jsval
  verifierDevices :: jsval

text \<open>An argument handed to a callback: a plain value or a session object.\<close>

datatype arg = Val jsval | Sess CognitoUserSession

definition sessionArg :: "CognitoUserSession option \<Rightarrow> arg" where
  "sessionArg s = (case s of None \<Rightarrow> Val JNull | Some x \<Rightarrow> Sess x)"

text \<open>
  How a method ends: the callback it invokes, with the arguments; an exception that leaves
  the handler; a request that is never answered (\<open>Pending\<close>); or a return with no callback
  invoked (\<open>NoCallback\<close>). \<open>callback\<close> is the call of the callback itself as a function.
\<close>

datatype outcome =
    onFailure "arg list"
  | onSuccess "arg list"
  | mfaRequired "arg list"
  | customChallenge "arg list"
  | inputVerificationCode "arg list"
  | callback "arg list"
  | Threw exn
  | Pending
  | NoCallback

text \<open>The constructor, with the object \<^verbatim>\<open>data\<close> given by its two fields.\<close>

definition CognitoUser_new :: "jsval \<Rightarrow> CognitoUserPool option \<Rightarrow> exn + CognitoUser" where
  "CognitoUser_new Username Pool =
     (case Pool of
        None \<Rightarrow> Inl (Error ''Username and pool information are required.'')
      | Some p \<Rightarrow>
          if nullish Username then Inl (Error ''Username and pool information are required.'')
          else Inr \<lparr>username = (if truthy Username then Username else JStr []),
                    pool = p, Session = JNull, signInUserSession = None,
                    authenticationFlowType = JStr ''USER_SRP_AUTH'',
                    deviceKey = JUndefined, randomPassword = JUndefined,
                    deviceGroupKey = JUndefined, deviceGroupkey = JUndefined,
                    verifierDevices = JUndefined\<rparr>)"

section \<open>The token and device cache\<close>

definition userKey :: "CognitoUser \<Rightarrow> string \<Rightarrow> string" where
  "userKey u field =
     ''CognitoIdentityServiceProvider.'' @ getClientId (pool u) @ ''.'' @ toStr (username u) @ ''.'' @ field"

definition lastUserKey :: "CognitoUser \<Rightarrow> string" where
  "lastUserKey u = ''CognitoIdentityServiceProvider.'' @ getClientId (pool u) @ ''.LastAuthUser''"

text \<open>
  \<^verbatim>\<open>cacheTokens\<close> reads \<^verbatim>\<open>this.signInUserSession.getIdToken()\<close>: with no session the read
  raises and nothing is stored.
\<close>

definition cacheTokens :: "CognitoUser \<Rightarrow> world \<Rightarrow> exn + world" where
  "cacheTokens u w =
     (case signInUserSession u of
        None \<Rightarrow> Inl TypeError
      | Some s \<Rightarrow>
          Inr (setItem (lastUserKey u) (username u)
              (setItem (userKey u ''refreshToken'') (refreshToken s)
              (setItem (userKey u ''accessToken'') (accessToken s)
              (setItem (userKey u ''idToken'') (idToken s) w)))))"

definition cacheDeviceKeyAndPassword :: "CognitoUser \<Rightarrow> world \<Rightarrow> world" where
  "cacheDeviceKeyAndPassword u w =
     setItem (userKey u ''deviceGroupKey'') (deviceGroupKey u)
    (setItem (userKey u ''randomPasswordKey'') (randomPassword u)
    (setItem (userKey u ''deviceKey'') (deviceKey u) w))"

definition getCachedDeviceKeyAndPassword :: "CognitoUser \<Rightarrow> world \<Rightarrow> CognitoUser" where
  "getCachedDeviceKeyAndPassword u w =
     (if truthy (getItem w (userKey u ''deviceKey''))
      then u\<lparr>deviceKey := getItem w (userKey u ''deviceKey''),
             randomPassword := getItem w (userKey u ''randomPasswordKey''),
             deviceGroupKey := getItem w (userKey u ''deviceGroupKey'')\<rparr>
      else u)"

definition clearCachedDeviceKeyAndPassword :: "CognitoUser \<Rightarrow> world \<Rightarrow> world" where
  "clearCachedDeviceKeyAndPassword u w =
     removeItem (userKey u ''deviceGroupKey'')
    (removeItem (userKey u ''randomPasswordKey'')
    (removeItem (userKey u ''deviceKey'') w))"

definition clearCachedTokens :: "CognitoUser \<Rightarrow> world \<Rightarrow> world" where
  "clearCachedTokens u w =
     removeItem (lastUserKey u)
    (removeItem (userKey u ''refreshToken'')
    (removeItem (userKey u ''accessToken'')
    (removeItem (userKey u ''idToken'') w)))"

definition getCognitoUserSession :: "env \<Rightarrow> jsval \<Rightarrow> CognitoUserSession" where
  "getCognitoUserSession e authResult =
     \<lparr>idToken = jwt e ''IdToken'' authResult,
      accessToken = jwt e ''AccessToken'' authResult,
      refreshToken = jwt e ''RefreshToken'' authResult\<rparr>"

definition signOut :: "CognitoUser \<Rightarrow> world \<Rightarrow> CognitoUser \<times> world" where
  "signOut u w = (let u' = u\<lparr>signInUserSession := None\<rparr> in (u', clearCachedTokens u' w))"

section \<open>AuthenticationDetails\<close>

text \<open>The second class of the sources; \<open>authUsername\<close> is its field \<^verbatim>\<open>username\<close>.\<close>

record AuthenticationDetails =
  validationData :: jsval
  authUsername :: jsval
  password :: jsval

definition AuthenticationDetails_new :: "jsval \<Rightarrow> AuthenticationDetails" where
  "AuthenticationDetails_new data0 =
     (let d = (if truthy data0 then data0 else JObj [])
      in \<lparr>validationData =
             (if truthy (getProp d ''ValidationData'') then getProp d ''ValidationData'' else JArr []),
           authUsername = getProp d ''Username'',
           password = getProp d ''Password''\<rparr>)"

definition getPassword :: "AuthenticationDetails \<Rightarrow> jsval" where
  "getPassword a = password a"

definition getValidationData :: "AuthenticationDetails \<Rightarrow> jsval" where
  "getValidationData a = validationData a"

section \<open>Requests and their continuations\<close>

text \<open>
  \<open>andThen\<close> runs the callback of a request on the reply, when there is one. The callbacks
  of the source are closures; each is a function here, named after the request it answers.
\<close>

definition andThen ::
  "reply option \<times> world \<Rightarrow> CognitoUser \<Rightarrow>
   (reply \<Rightarrow> CognitoUser \<Rightarrow> world \<Rightarrow> CognitoUser \<times> world \<times> outcome) \<Rightarrow>
   CognitoUser \<times> world \<times> outcome" where
  "andThen rw u k = (case rw of (None, w1) \<Rightarrow> (u, w1, Pending) | (Some r, w1) \<Rightarrow> k r u w1)"

text \<open>\<^verbatim>\<open>this.pool.getUserPoolId().split('_')[1]\<close>, the name the SRP helper is built for.\<close>

definition poolName :: "CognitoUser \<Rightarrow> jsval" where
  "poolName u = elemAt (split_str (CHR ''_'') (getUserPoolId (pool u))) 1"

text \<open>
  \<^verbatim>\<open>this.signInUserSession != null && this.signInUserSession.isValid()\<close>, giving the session
  when the test holds.
\<close>

definition validSession :: "env \<Rightarrow> CognitoUser \<Rightarrow> CognitoUserSession option" where
  "validSession e u =
     (case signInUserSession u of
        None \<Rightarrow> None
      | Some s \<Rightarrow> if isValid e s then Some s else None)"

subsection \<open>Confirmation of a new device\<close>

text \<open>The callback of \<^verbatim>\<open>confirmDevice\<close> (lines 195-206 and, the same text, 391-402).\<close>

definition onConfirmDevice ::
  "jsval \<Rightarrow> reply \<Rightarrow> CognitoUser \<Rightarrow> world \<Rightarrow> CognitoUser \<times> world \<times> outcome" where
  "onConfirmDevice authResult r u w =
     (if truthy (err r) then (u, w, onFailure [Val (err r)])
      else
        let u1 = u\<lparr>deviceKey := getProp (getProp authResult ''NewDeviceMetadata'') ''DeviceKey''\<rparr>;
            w1 = cacheDeviceKeyAndPassword u1 w
        in if nullish (data r) then (u1, w1, Threw TypeError)
           else if getProp (data r) ''UserConfirmationNecessary'' = JBool True
           then (u1, w1, onSuccess [sessionArg (signInUserSession u1),
                                    Val (getProp (data r) ''UserConfirmationNecessary'')])
           else (u1, w1, onSuccess [sessionArg (signInUserSession u1)]))"

text \<open>
  The branch taken when the result carries \<^verbatim>\<open>NewDeviceMetadata\<close> (lines 179-206 and
  374-402); \<open>g\<close> is the pool name of the helper in use.
\<close>

definition confirmNewDevice ::
  "env \<Rightarrow> jsval \<Rightarrow> jsval \<Rightarrow> CognitoUser \<Rightarrow> world \<Rightarrow> CognitoUser \<times> world \<times> outcome" where
  "confirmNewDevice e g authResult u w =
     (let ndm = getProp authResult ''NewDeviceMetadata'';
          dgk = getProp ndm ''DeviceGroupKey'';
          dk = getProp ndm ''DeviceKey'';
          deviceSecretVerifierConfig =
            JObj [(''Salt'', JStr (saltDevices e g dgk dk)),
                  (''PasswordVerifier'', JStr (passwordVerifier e g dgk dk))];
          u1 = u\<lparr>verifierDevices := JStr (verifierDevicesBits e g dgk dk),
                 deviceGroupKey := dgk,
                 randomPassword := getRandomPassword e g dgk dk\<rparr>
      in case signInUserSession u1 of
           None \<Rightarrow> (u1, w, Threw TypeError)
         | Some s \<Rightarrow>
             andThen (makeUnauthenticatedRequest ''confirmDevice''
                        (JObj [(''DeviceKey'', dk),
                               (''AccessToken'', accessToken s),
                               (''DeviceSecretVerifierConfig'', deviceSecretVerifierConfig),
                               (''DeviceName'', userAgent e)]) w)
               u1 (onConfirmDevice authResult))"

text \<open>
  The treatment of a response as the final one (lines 175-209 and 370-405): build the
  session from \<^verbatim>\<open>AuthenticationResult\<close>, cache the tokens, then look for a new device.
\<close>

definition completeAuthentication ::
  "env \<Rightarrow> jsval \<Rightarrow> jsval \<Rightarrow> CognitoUser \<Rightarrow> world \<Rightarrow> CognitoUser \<times> world \<times> outcome" where
  "completeAuthentication e g dataAuthenticate u w =
     (let authResult = getProp dataAuthenticate ''AuthenticationResult'';
          u1 = u\<lparr>signInUserSession := Some (getCognitoUserSession e authResult)\<rparr>
      in case cacheTokens u1 w of
           Inl x \<Rightarrow> (u1, w, Threw x)
         | Inr w1 \<Rightarrow>
             if nullish authResult then (u1, w1, Threw TypeError)
             else if \<not> nullish (getProp authResult ''NewDeviceMetadata'')
             then confirmNewDevice e g authResult u1 w1
             else (u1, w1, onSuccess [sessionArg (signInUserSession u1)]))"

subsection \<open>getDeviceResponse\<close>

definition onDevicePasswordVerifier ::
  "env \<Rightarrow> reply \<Rightarrow> CognitoUser \<Rightarrow> world \<Rightarrow> CognitoUser \<times> world \<times> outcome" where
  "onDevicePasswordVerifier e r u w =
     (if truthy (err r) then (u, w, onFailure [Val (err r)])
      else if nullish (data r) then (u, w, Threw TypeError)
      else
        let u1 = u\<lparr>signInUserSession :=
                     Some (getCognitoUserSession e (getProp (data r) ''AuthenticationResult''))\<rparr>
        in case cacheTokens u1 w of
             Inl x \<Rightarrow> (u1, w, Threw x)
           | Inr w1 \<Rightarrow> (u1, w1, onSuccess [sessionArg (signInUserSession u1)]))"

definition devicePasswordVerifierRequest :: "env \<Rightarrow> jsval \<Rightarrow> jsval \<Rightarrow> CognitoUser \<Rightarrow> jsval" where
  "devicePasswordVerifierRequest e g d u =
     (let challengeParameters = getProp d ''ChallengeParameters'';
          hkdf = passwordAuthenticationKey e g (deviceKey u) (randomPassword u)
                   (getProp challengeParameters ''SRP_B'') (getProp challengeParameters ''SALT'');
          dateNow = nowString e;
          signatureString =
            hmac e hkdf [Utf8 (deviceGroupKey u), Utf8 (deviceKey u),
                         Base64 (getProp challengeParameters ''SECRET_BLOCK''),
                         Utf8 (JStr dateNow)]
      in JObj [(''ChallengeName'', JStr ''DEVICE_PASSWORD_VERIFIER''),
               (''ClientId'', JStr (getClientId (pool u))),
               (''ChallengeResponses'',
                  JObj [(''USERNAME'', username u),
                        (''PASSWORD_CLAIM_SECRET_BLOCK'', getProp challengeParameters ''SECRET_BLOCK''),
                        (''TIMESTAMP'', JStr dateNow),
                        (''PASSWORD_CLAIM_SIGNATURE'', JStr signatureString),
                        (''DEVICE_KEY'', deviceKey u)]),
               (''Session'', getProp d ''Session'')])"

definition onDeviceSrpAuth ::
  "env \<Rightarrow> jsval \<Rightarrow> reply \<Rightarrow> CognitoUser \<Rightarrow> world \<Rightarrow> CognitoUser \<times> world \<times> outcome" where
  "onDeviceSrpAuth e g r u w =
     (if truthy (err r) then (u, w, onFailure [Val (err r)])
      else if nullish (data r) then (u, w, Threw TypeError)
      else if nullish (getProp (data r) ''ChallengeParameters'') then (u, w, Threw TypeError)
      else andThen (makeUnauthenticatedRequest ''respondToAuthChallenge''
                      (devicePasswordVerifierRequest e g (data r) u) w)
             u (onDevicePasswordVerifier e))"

definition getDeviceResponse ::
  "env \<Rightarrow> CognitoUser \<Rightarrow> world \<Rightarrow> CognitoUser \<times> world \<times> outcome" where
  "getDeviceResponse e u w =
     (let g = deviceGroupKey u;
          authParameters = JObj [(''USERNAME'', username u),
                                 (''DEVICE_KEY'', deviceKey u),
                                 (''SRP_A'', JStr (largeA e g))]
      in andThen (makeUnauthenticatedRequest ''respondToAuthChallenge''
                    (JObj [(''ChallengeName'', JStr ''DEVICE_SRP_AUTH''),
                           (''ClientId'', JStr (getClientId (pool u))),
                           (''ChallengeResponses'', authParameters)]) w)
           u (onDeviceSrpAuth e g))"

subsection \<open>authenticateUser\<close>

text \<open>The callback of the \<^verbatim>\<open>PASSWORD_VERIFIER\<close> round (lines 160-211).\<close>

definition onPasswordVerifier ::
  "env \<Rightarrow> jsval \<Rightarrow> reply \<Rightarrow> CognitoUser \<Rightarrow> world \<Rightarrow> CognitoUser \<times> world \<times> outcome" where
  "onPasswordVerifier e g r u w =
     (if truthy (err r) then (u, w, onFailure [Val (err r)])
      else if nullish (data r) then (u, w, Threw TypeError)
      else
        let challengeName = getProp (data r) ''ChallengeName''
        in if \<not> nullish challengeName \<and> challengeName = JStr ''SMS_MFA''
           then (u\<lparr>Session := getProp (data r) ''Session''\<rparr>, w, mfaRequired [Val challengeName])
           else if \<not> nullish challengeName \<and> challengeName = JStr ''CUSTOM_CHALLENGE''
           then (u\<lparr>Session := getProp (data r) ''Session''\<rparr>, w,
                 customChallenge [Val (getProp (data r) ''ChallengeParameters'')])
           else if \<not> nullish challengeName \<and> challengeName = JStr ''DEVICE_SRP_AUTH''
           then getDeviceResponse e u w
           else completeAuthentication e g (data r) u w)"

definition passwordVerifierRequest ::
  "env \<Rightarrow> jsval \<Rightarrow> AuthenticationDetails \<Rightarrow> jsval \<Rightarrow> CognitoUser \<Rightarrow> jsval" where
  "passwordVerifierRequest e g authDetails d u =
     (let challengeParameters = getProp d ''ChallengeParameters'';
          hkdf = passwordAuthenticationKey e g (username u) (getPassword authDetails)
                   (getProp challengeParameters ''SRP_B'') (getProp challengeParameters ''SALT'');
          dateNow = nowString e;
          signatureString =
            hmac e hkdf [Utf8 (poolName u), Utf8 (username u),
                         Base64 (getProp challengeParameters ''SECRET_BLOCK''),
                         Utf8 (JStr dateNow)];
          challengeResponses =
            [(''USERNAME'', username u),
             (''PASSWORD_CLAIM_SECRET_BLOCK'', getProp challengeParameters ''SECRET_BLOCK''),
             (''TIMESTAMP'', JStr dateNow),
             (''PASSWORD_CLAIM_SIGNATURE'', JStr signatureString)]
            @ (if \<not> nullish (deviceKey u) then [(''DEVICE_KEY'', deviceKey u)] else [])
      in JObj [(''ChallengeName'', JStr ''PASSWORD_VERIFIER''),
               (''ClientId'', JStr (getClientId (pool u))),
               (''ChallengeResponses'', JObj challengeResponses),
               (''Session'', getProp d ''Session'')])"

text \<open>The callback of \<^verbatim>\<open>initiateAuth\<close> (lines 120-212).\<close>

definition onInitiateAuth ::
  "env \<Rightarrow> jsval \<Rightarrow> AuthenticationDetails \<Rightarrow> reply \<Rightarrow> CognitoUser \<Rightarrow> world \<Rightarrow>
   CognitoUser \<times> world \<times> outcome" where
  "onInitiateAuth e g authDetails r u w =
     (if truthy (err r) then (u, w, onFailure [Val (err r)])
      else if nullish (data r) then (u, w, Threw TypeError)
      else if nullish (getProp (data r) ''ChallengeParameters'') then (u, w, Threw TypeError)
      else
        let u1 = u\<lparr>username := getProp (getProp (data r) ''ChallengeParameters'') ''USER_ID_FOR_SRP''\<rparr>;
            u2 = getCachedDeviceKeyAndPassword u1 w
        in andThen (makeUnauthenticatedRequest ''respondToAuthChallenge''
                      (passwordVerifierRequest e g authDetails (data r) u2) w)
             u2 (onPasswordVerifier e g))"

definition authenticateUser ::
  "env \<Rightarrow> AuthenticationDetails \<Rightarrow> CognitoUser \<Rightarrow> world \<Rightarrow> CognitoUser \<times> world \<times> outcome" where
  "authenticateUser e authDetails u w =
     (let g = poolName u;
          authParameters =
            (if \<not> nullish (deviceKey u) then [(''DEVICE_KEY'', deviceKey u)] else [])
            @ [(''USERNAME'', username u), (''SRP_A'', JStr (largeA e g))]
            @ (if authenticationFlowType u = JStr ''CUSTOM_AUTH''
               then [(''CHALLENGE_NAME'', JStr ''SRP_A'')] else [])
      in andThen (makeUnauthenticatedRequest ''initiateAuth''
                    (JObj [(''AuthFlow'', authenticationFlowType u),
                           (''ClientId'', JStr (getClientId (pool u))),
                           (''AuthParameters'', JObj authParameters),
                           (''ClientMetadata'', getValidationData authDetails)]) w)
           u (onInitiateAuth e g authDetails))"

subsection \<open>sendCustomChallengeAnswer and sendMFACode\<close>



text \<open>The callback of the \<^verbatim>\<open>SMS_MFA\<close> round (lines 366-407).\<close>

definition onMFACode ::
  "env \<Rightarrow> reply \<Rightarrow> CognitoUser \<Rightarrow> world \<Rightarrow> CognitoUser \<times> world \<times> outcome" where
  "onMFACode e r u w =
     (if truthy (err r) then (u, w, onFailure [Val (err r)])
      else if nullish (data r) then (u, w, Threw TypeError)
      else completeAuthentication e (poolName u) (data r) u w)"

definition sendMFACode ::
  "env \<Rightarrow> jsval \<Rightarrow> CognitoUser \<Rightarrow> world \<Rightarrow> CognitoUser \<times> world \<times> outcome" where
  "sendMFACode e confirmationCode u w =
     (let challengeResponses =
            [(''USERNAME'', username u), (''SMS_MFA_CODE'', confirmationCode)]
            @ (if \<not> nullish (deviceKey u) then [(''DEVICE_KEY'', deviceKey u)] else [])
      in andThen (makeUnauthenticatedRequest ''respondToAuthChallenge''
                    (JObj [(''ChallengeName'', JStr ''SMS_MFA''),
                           (''ChallengeResponses'', JObj challengeResponses),
                           (''ClientId'', JStr (getClientId (pool u))),
                           (''Session'', Session u)]) w)
           u (onMFACode e))"

subsection \<open>getSession and refreshSession\<close>

text \<open>
  The argument \<open>token\<close> of \<open>refreshSession\<close> stands for the refresh token object: it is what its
  \<^verbatim>\<open>getToken()\<close> returns. In the callback, \<^verbatim>\<open>if (authResult)\<close> lets a reply with neither an
  error nor data end with no callback invoked.
\<close>

definition onRefresh ::
  "env \<Rightarrow> jsval \<Rightarrow> reply \<Rightarrow> CognitoUser \<Rightarrow> world \<Rightarrow> CognitoUser \<times> world \<times> outcome" where
  "onRefresh e token r u w =
     (if truthy (err r) then (u, w, callback [Val (err r), Val JNull])
      else if truthy (data r) then
        let authResult = getProp (data r) ''AuthenticationResult''
        in if nullish authResult then (u, w, Threw TypeError)
           else
             (case (if \<not> hasOwnProperty authResult ''RefreshToken''
                    then assign authResult ''RefreshToken'' token
                    else Inr authResult) of
                Inl x \<Rightarrow> (u, w, Threw x)
              | Inr authResult' \<Rightarrow>
                  (let u1 = u\<lparr>signInUserSession := Some (getCognitoUserSession e authResult')\<rparr>
                   in (case cacheTokens u1 w of
                         Inl x \<Rightarrow> (u1, w, Threw x)
                       | Inr w1 \<Rightarrow> (u1, w1, callback [Val JNull, sessionArg (signInUserSession u1)]))))
      else (u, w, NoCallback))"

definition refreshSession ::
  "env \<Rightarrow> jsval \<Rightarrow> CognitoUser \<Rightarrow> world \<Rightarrow> CognitoUser \<times> world \<times> outcome" where
  "refreshSession e token u w =
     (let u1 = (if truthy (getItem w (lastUserKey u))
                then let u' = u\<lparr>username := getItem w (lastUserKey u)\<rparr>
                     in u'\<lparr>deviceKey := getItem w (userKey u' ''deviceKey'')\<rparr>
                else u);
          authParameters =
            [(''REFRESH_TOKEN'', token)]
            @ (if truthy (getItem w (lastUserKey u)) then [(''DEVICE_KEY'', deviceKey u1)] else [])
      in andThen (makeUnauthenticatedRequest ''initiateAuth''
                    (JObj [(''ClientId'', JStr (getClientId (pool u1))),
                           (''AuthFlow'', JStr ''REFRESH_TOKEN_AUTH''),
                           (''AuthParameters'', JObj authParameters)]) w)
           u1 (onRefresh e token))"

definition getSession ::
  "env \<Rightarrow> CognitoUser \<Rightarrow> world \<Rightarrow> CognitoUser \<times> world \<times> outcome" where
  "getSession e u w =
     (if nullish (username u)
      then (u, w, callback [Val (JError ''Username is null. Cannot retrieve a new session''), Val JNull])
      else if validSession e u \<noteq> None
      then (u, w, callback [Val JNull, sessionArg (signInUserSession u)])
      else if truthy (getItem w (userKey u ''idToken''))
      then
        let cachedSession =
              \<lparr>idToken = jwt e ''IdToken'' (JObj [(''IdToken'', getItem w (userKey u ''idToken''))]),
               accessToken = jwt e ''AccessToken'' (JObj [(''AccessToken'', getItem w (userKey u ''accessToken''))]),
               refreshToken = jwt e ''RefreshToken'' (JObj [(''RefreshToken'', getItem w (userKey u ''refreshToken''))])\<rparr>
        in if isValid e cachedSession
           then (u\<lparr>signInUserSession := Some cachedSession\<rparr>, w, callback [Val JNull, Sess cachedSession])
           else if \<not> nullish (refreshToken cachedSession)
           then refreshSession e (refreshToken cachedSession) u w
           else (u, w, callback [Val (JError ''Cannot retrieve a new session. Please authenticate.''), Val JNull])
      else (u, w, NoCallback))"

section \<open>Operations that need a valid session\<close>

text \<open>
  The argument \<^verbatim>\<open>callback\<close> of these operations, \<open>cb\<close> below. The code uses it in two
  ways: it calls it as a function, \<^verbatim>\<open>callback(err, result)\<close>, and it calls a method of it,
  \<^verbatim>\<open>callback.onSuccess(...)\<close>. \<open>callable cb\<close> says that the value is a function; \<open>methods cb\<close>
  names its properties that are functions. A call of what is not a function raises a
  TypeError. (The methods of the sections above use their callback in one way only.)
\<close>

record callbackObject =
  callable :: bool
  methods :: "string list"

text \<open>\<^verbatim>\<open>callback(args)\<close>.\<close>

definition callFunction :: "callbackObject \<Rightarrow> arg list \<Rightarrow> outcome" where
  "callFunction cb args = (if callable cb then callback args else Threw TypeError)"

text \<open>\<^verbatim>\<open>callback.onFailure(args)\<close>, \<^verbatim>\<open>callback.onSuccess(args)\<close> and
  \<^verbatim>\<open>callback.inputVerificationCode(args)\<close>.\<close>

definition callOnFailure :: "callbackObject \<Rightarrow> arg list \<Rightarrow> outcome" where
  "callOnFailure cb args =
     (if ''onFailure'' \<in> set (methods cb) then onFailure args else Threw TypeError)"

definition callOnSuccess :: "callbackObject \<Rightarrow> arg list \<Rightarrow> outcome" where
  "callOnSuccess cb args =
     (if ''onSuccess'' \<in> set (methods cb) then onSuccess args else Threw TypeError)"

definition callInputVerificationCode :: "callbackObject \<Rightarrow> arg list \<Rightarrow> outcome" where
  "callInputVerificationCode cb args =
     (if ''inputVerificationCode'' \<in> set (methods cb) then inputVerificationCode args
      else Threw TypeError)"

text \<open>The three shapes of callback that these operations hand to the request.\<close>

definition reportToCallback ::
  "callbackObject \<Rightarrow> reply \<Rightarrow> CognitoUser \<Rightarrow> world \<Rightarrow> CognitoUser \<times> world \<times> outcome" where
  "reportToCallback cb r u w =
     (if truthy (err r) then (u, w, callFunction cb [Val (err r), Val JNull])
      else (u, w, callFunction cb [Val JNull, Val (JStr ''SUCCESS'')]))"

definition reportSuccess ::
  "callbackObject \<Rightarrow> reply \<Rightarrow> CognitoUser \<Rightarrow> world \<Rightarrow> CognitoUser \<times> world \<times> outcome" where
  "reportSuccess cb r u w =
     (if truthy (err r) then (u, w, callOnFailure cb [Val (err r)])
      else (u, w, callOnSuccess cb [Val (JStr ''SUCCESS'')]))"

definition reportData ::
  "callbackObject \<Rightarrow> reply \<Rightarrow> CognitoUser \<Rightarrow> world \<Rightarrow> CognitoUser \<times> world \<times> outcome" where
  "reportData cb r u w =
     (if truthy (err r) then (u, w, callOnFailure cb [Val (err r)])
      else (u, w, callOnSuccess cb [Val (data r)]))"

text \<open>\<^verbatim>\<open>return callback(new Error('User is not authenticated'), null)\<close>.\<close>

definition notAuthenticated :: "callbackObject \<Rightarrow> outcome" where
  "notAuthenticated cb = callFunction cb [Val (JError ''User is not authenticated''), Val JNull]"

definition changePassword ::
  "env \<Rightarrow> jsval \<Rightarrow> jsval \<Rightarrow> callbackObject \<Rightarrow> CognitoUser \<Rightarrow> world \<Rightarrow> CognitoUser \<times> world \<times> outcome" where
  "changePassword e oldUserPassword newUserPassword cb u w =
     (case validSession e u of
        Some s \<Rightarrow>
          andThen (makeUnauthenticatedRequest ''changePassword''
                     (JObj [(''PreviousPassword'', oldUserPassword),
                            (''ProposedPassword'', newUserPassword),
                            (''AccessToken'', accessToken s)]) w)
            u (reportToCallback cb)
      | None \<Rightarrow> (u, w, notAuthenticated cb))"

definition enableMFA :: "env \<Rightarrow> callbackObject \<Rightarrow> CognitoUser \<Rightarrow> world \<Rightarrow> CognitoUser \<times> world \<times> outcome" where
  "enableMFA e cb u w =
     (case validSession e u of
        Some s \<Rightarrow>
          andThen (makeUnauthenticatedRequest ''setUserSettings''
                     (JObj [(''MFAOptions'',
                               JArr [JObj [(''DeliveryMedium'', JStr ''SMS''),
                                           (''AttributeName'', JStr ''phone_number'')]]),
                            (''AccessToken'', accessToken s)]) w)
            u (reportToCallback cb)
      | None \<Rightarrow> (u, w, notAuthenticated cb))"

definition disableMFA :: "env \<Rightarrow> callbackObject \<Rightarrow> CognitoUser \<Rightarrow> world \<Rightarrow> CognitoUser \<times> world \<times> outcome" where
  "disableMFA e cb u w =
     (case validSession e u of
        Some s \<Rightarrow>
          andThen (makeUnauthenticatedRequest ''setUserSettings''
                     (JObj [(''MFAOptions'', JArr []), (''AccessToken'', accessToken s)]) w)
            u (reportToCallback cb)
      | None \<Rightarrow> (u, w, notAuthenticated cb))"

definition deleteUser :: "env \<Rightarrow> callbackObject \<Rightarrow> CognitoUser \<Rightarrow> world \<Rightarrow> CognitoUser \<times> world \<times> outcome" where
  "deleteUser e cb u w =
     (case validSession e u of
        Some s \<Rightarrow>
          andThen (makeUnauthenticatedRequest ''deleteUser''
                     (JObj [(''AccessToken'', accessToken s)]) w)
            u (reportToCallback cb)
      | None \<Rightarrow> (u, w, notAuthenticated cb))"

definition updateAttributes ::
  "env \<Rightarrow> jsval \<Rightarrow> callbackObject \<Rightarrow> CognitoUser \<Rightarrow> world \<Rightarrow> CognitoUser \<times> world \<times> outcome" where
  "updateAttributes e attributes cb u w =
     (case validSession e u of
        Some s \<Rightarrow>
          andThen (makeUnauthenticatedRequest ''updateUserAttributes''
                     (JObj [(''AccessToken'', accessToken s), (''UserAttributes'', attributes)]) w)
            u (reportToCallback cb)
      | None \<Rightarrow> (u, w, notAuthenticated cb))"

text \<open>
  The loop of \<^verbatim>\<open>getUserAttributes\<close> over \<^verbatim>\<open>userData.UserAttributes\<close>: it stops at the first
  exception, raised by the read of \<^verbatim>\<open>.Name\<close> on an element that is \<^verbatim>\<open>null\<close> or by the
  constructor.
\<close>

fun attributeList :: "env \<Rightarrow> jsval list \<Rightarrow> exn + jsval list" where
  "attributeList e [] = Inr []"
| "attributeList e (x # xs) =
     (if nullish x then Inl TypeError
      else (case newCognitoUserAttribute e (JObj [(''Name'', getProp x ''Name''),
                                                  (''Value'', getProp x ''Value'')]) of
              Inl ex \<Rightarrow> Inl ex
            | Inr a \<Rightarrow>
                (case attributeList e xs of
                   Inl ex \<Rightarrow> Inl ex
                 | Inr rest \<Rightarrow> Inr (a # rest))))"

text \<open>The elements \<^verbatim>\<open>v[0]\<close>, ..., \<^verbatim>\<open>v[v.length - 1]\<close>; none when \<^verbatim>\<open>v.length\<close> is undefined.\<close>

fun elements :: "jsval \<Rightarrow> jsval list" where
  "elements (JArr xs) = xs"
| "elements (JStr s) = map (\<lambda>c. JStr [c]) s"
| "elements _ = []"

definition onGetUser ::
  "env \<Rightarrow> callbackObject \<Rightarrow> reply \<Rightarrow> CognitoUser \<Rightarrow> world \<Rightarrow> CognitoUser \<times> world \<times> outcome" where
  "onGetUser e cb r u w =
     (if truthy (err r) then (u, w, callFunction cb [Val (err r), Val JNull])
      else if nullish (data r) then (u, w, Threw TypeError)
      else if nullish (getProp (data r) ''UserAttributes'') then (u, w, Threw TypeError)
      else (case attributeList e (elements (getProp (data r) ''UserAttributes'')) of
              Inl ex \<Rightarrow> (u, w, Threw ex)
            | Inr as \<Rightarrow> (u, w, callFunction cb [Val JNull, Val (JArr as)])))"

definition getUserAttributes :: "env \<Rightarrow> callbackObject \<Rightarrow> CognitoUser \<Rightarrow> world \<Rightarrow> CognitoUser \<times> world \<times> outcome" where
  "getUserAttributes e cb u w =
     (case validSession e u of
        Some s \<Rightarrow>
          andThen (makeUnauthenticatedRequest ''getUser''
                     (JObj [(''AccessToken'', accessToken s)]) w)
            u (onGetUser e cb)
      | None \<Rightarrow> (u, w, notAuthenticated cb))"

definition deleteAttributes ::
  "env \<Rightarrow> jsval \<Rightarrow> callbackObject \<Rightarrow> CognitoUser \<Rightarrow> world \<Rightarrow> CognitoUser \<times> world \<times> outcome" where
  "deleteAttributes e attributeNames cb u w =
     (case validSession e u of
        Some s \<Rightarrow>
          andThen (makeUnauthenticatedRequest ''deleteUserAttributes''
                     (JObj [(''UserAttributeNames'', attributeNames),
                            (''AccessToken'', accessToken s)]) w)
            u (reportToCallback cb)
      | None \<Rightarrow> (u, w, notAuthenticated cb))"

definition onVerificationCode ::
  "callbackObject \<Rightarrow> reply \<Rightarrow> CognitoUser \<Rightarrow> world \<Rightarrow> CognitoUser \<times> world \<times> outcome" where
  "onVerificationCode cb r u w =
     (if truthy (err r) then (u, w, callOnFailure cb [Val (err r)])
      else (u, w, callInputVerificationCode cb [Val (data r)]))"

definition getAttributeVerificationCode ::
  "env \<Rightarrow> jsval \<Rightarrow> callbackObject \<Rightarrow> CognitoUser \<Rightarrow> world \<Rightarrow> CognitoUser \<times> world \<times> outcome" where
  "getAttributeVerificationCode e attributeName cb u w =
     (case validSession e u of
        Some s \<Rightarrow>
          andThen (makeUnauthenticatedRequest ''getUserAttributeVerificationCode''
                     (JObj [(''AttributeName'', attributeName),
                            (''AccessToken'', accessToken s)]) w)
            u (onVerificationCode cb)
      | None \<Rightarrow> (u, w, notAuthenticated cb))"

definition verifyAttribute ::
  "env \<Rightarrow> jsval \<Rightarrow> jsval \<Rightarrow> callbackObject \<Rightarrow> CognitoUser \<Rightarrow> world \<Rightarrow> CognitoUser \<times> world \<times> outcome" where
  "verifyAttribute e attributeName confirmationCode cb u w =
     (case validSession e u of
        Some s \<Rightarrow>
          andThen (makeUnauthenticatedRequest ''verifyUserAttribute''
                     (JObj [(''AttributeName'', attributeName),
                            (''Code'', confirmationCode),
                            (''AccessToken'', accessToken s)]) w)
            u (reportSuccess cb)
      | None \<Rightarrow> (u, w, notAuthenticated cb))"

definition getDevice :: "env \<Rightarrow> callbackObject \<Rightarrow> CognitoUser \<Rightarrow> world \<Rightarrow> CognitoUser \<times> world \<times> outcome" where
  "getDevice e cb u w =
     (case validSession e u of
        Some s \<Rightarrow>
          andThen (makeUnauthenticatedRequest ''getDevice''
                     (JObj [(''AccessToken'', accessToken s), (''DeviceKey'', deviceKey u)]) w)
            u (reportData cb)
      | None \<Rightarrow> (u, w, notAuthenticated cb))"

definition onForgetDevice ::
  "callbackObject \<Rightarrow> reply \<Rightarrow> CognitoUser \<Rightarrow> world \<Rightarrow> CognitoUser \<times> world \<times> outcome" where
  "onForgetDevice cb r u w =
     (if truthy (err r) then (u, w, callOnFailure cb [Val (err r)])
      else
        let u1 = u\<lparr>deviceKey := JNull, deviceGroupkey := JNull, randomPassword := JNull\<rparr>
        in (u1, clearCachedDeviceKeyAndPassword u1 w, callOnSuccess cb [Val (JStr ''SUCCESS'')]))"

definition forgetDevice :: "env \<Rightarrow> callbackObject \<Rightarrow> CognitoUser \<Rightarrow> world \<Rightarrow> CognitoUser \<times> world \<times> outcome" where
  "forgetDevice e cb u w =
     (case validSession e u of
        Some s \<Rightarrow>
          andThen (makeUnauthenticatedRequest ''forgetDevice''
                     (JObj [(''AccessToken'', accessToken s), (''DeviceKey'', deviceKey u)]) w)
            u (onForgetDevice cb)
      | None \<Rightarrow> (u, w, notAuthenticated cb))"

definition setDeviceStatusRemembered ::
  "env \<Rightarrow> callbackObject \<Rightarrow> CognitoUser \<Rightarrow> world \<Rightarrow> CognitoUser \<times> world \<times> outcome" where
  "setDeviceStatusRemembered e cb u w =
     (case validSession e u of
        Some s \<Rightarrow>
          andThen (makeUnauthenticatedRequest ''updateDeviceStatus''
                     (JObj [(''AccessToken'', accessToken s),
                            (''DeviceKey'', deviceKey u),
                            (''DeviceRememberedStatus'', JStr ''remembered'')]) w)
            u (reportSuccess cb)
      | None \<Rightarrow> (u, w, notAuthenticated cb))"

definition setDeviceStatusNotRemembered ::
  "env \<Rightarrow> callbackObject \<Rightarrow> CognitoUser \<Rightarrow> world \<Rightarrow> CognitoUser \<times> world \<times> outcome" where
  "setDeviceStatusNotRemembered e cb u w =
     (case validSession e u of
        Some s \<Rightarrow>
          andThen (makeUnauthenticatedRequest ''updateDeviceStatus''
                     (JObj [(''AccessToken'', accessToken s),
                            (''DeviceKey'', deviceKey u),
                            (''DeviceRememberedStatus'', JStr ''not_remembered'')]) w)
            u (reportSuccess cb)
      | None \<Rightarrow> (u, w, notAuthenticated cb))"

definition listDevices ::
  "env \<Rightarrow> jsval \<Rightarrow> jsval \<Rightarrow> callbackObject \<Rightarrow> CognitoUser \<Rightarrow> world \<Rightarrow> CognitoUser \<times> world \<times> outcome" where
  "listDevices e limit paginationToken cb u w =
     (case validSession e u of
        Some s \<Rightarrow>
          andThen (makeUnauthenticatedRequest ''listDevices''
                     (JObj [(''AccessToken'', accessToken s),
                            (''Limit'', limit),
                            (''PaginationToken'', paginationToken)]) w)
            u (reportData cb)
      | None \<Rightarrow> (u, w, notAuthenticated cb))"

definition onGlobalSignOut ::
  "callbackObject \<Rightarrow> reply \<Rightarrow> CognitoUser \<Rightarrow> world \<Rightarrow> CognitoUser \<times> world \<times> outcome" where
  "onGlobalSignOut cb r u w =
     (if truthy (err r) then (u, w, callOnFailure cb [Val (err r)])
      else (u, clearCachedTokens u w, callOnSuccess cb [Val (JStr ''SUCCESS'')]))"

definition globalSignOut :: "env \<Rightarrow> callbackObject \<Rightarrow> CognitoUser \<Rightarrow> world \<Rightarrow> CognitoUser \<times> world \<times> outcome" where
  "globalSignOut e cb u w =
     (case validSession e u of
        Some s \<Rightarrow>
          andThen (makeUnauthenticatedRequest ''globalSignOut''
                     (JObj [(''AccessToken'', accessToken s)]) w)
            u (onGlobalSignOut cb)
      | None \<Rightarrow> (u, w, notAuthenticated cb))"

section \<open>Predicates on the cache and on an exchange\<close>

text \<open>
  \<open>tokensCached u s w\<close>: the storage of \<open>w\<close> holds the three tokens of \<open>s\<close> and the name of
  \<open>u\<close> under the keys that \<^verbatim>\<open>cacheTokens\<close> builds for \<open>u\<close>.
  \<open>carriesUsername n q\<close>: if \<open>q\<close> is a challenge response, its \<^verbatim>\<open>USERNAME\<close> is \<open>n\<close>.
  \<open>cacheKeys u\<close>: the seven keys that the cache functions build for \<open>u\<close>.
  \<open>exchangeStep u w res\<close>: from the user \<open>u\<close> and the world \<open>w\<close>, a continuation ended in
  \<open>res\<close> keeping the name and the pool of the user, sending only requests that carry the
  name, and changing the storage only at the keys of \<open>u\<close>.
  \<open>finalOutcome out\<close>: \<open>out\<close> is neither \<^verbatim>\<open>mfaRequired\<close> nor \<^verbatim>\<open>customChallenge\<close>.
\<close>

definition tokensCached :: "CognitoUser \<Rightarrow> CognitoUserSession \<Rightarrow> world \<Rightarrow> bool" where
  "tokensCached u s w \<longleftrightarrow>
     getItem w (userKey u ''idToken'') = JStr (toStr (idToken s)) \<and>
     getItem w (userKey u ''accessToken'') = JStr (toStr (accessToken s)) \<and>
     getItem w (userKey u ''refreshToken'') = JStr (toStr (refreshToken s)) \<and>
     getItem w (lastUserKey u) = JStr (toStr (username u))"

definition carriesUsername :: "jsval \<Rightarrow> request \<Rightarrow> bool" where
  "carriesUsername n q \<longleftrightarrow>
     (operation q = ''respondToAuthChallenge'' \<longrightarrow>
        getProp (getProp (params q) ''ChallengeResponses'') ''USERNAME'' = n)"

definition cacheKeys :: "CognitoUser \<Rightarrow> string set" where
  "cacheKeys u = {userKey u ''idToken'', userKey u ''accessToken'', userKey u ''refreshToken'',
                  lastUserKey u, userKey u ''deviceKey'', userKey u ''randomPasswordKey'',
                  userKey u ''deviceGroupKey''}"


definition finalOutcome :: "outcome \<Rightarrow> bool" where
  "finalOutcome out \<longleftrightarrow> (\<forall>a. out \<noteq> mfaRequired a \<and> out \<noteq> customChallenge a)"

section \<open>A scripted provider\<close>

text \<open>
  The login scenario of the specification (section 8): the user \<^verbatim>\<open>alice\<close> of the pool
  \<^verbatim>\<open>p_abc\<close> with the client \<^verbatim>\<open>c1\<close> and the password \<^verbatim>\<open>Secret123!\<close>, a provider that
  answers from a script, and stand-ins for the collaborators: token wrappers that hand back
  the field they were built from, or the empty string when it is missing, a session that is
  valid unless a token reads \<^verbatim>\<open>expired\<close>, and key derivation and signing that spell out
  their arguments.
\<close>

definition testEnv :: env where
  "testEnv =
     \<lparr>jwt = (\<lambda>f r. if truthy (getProp r f) then getProp r f else JStr []),
      isValid = (\<lambda>s. idToken s \<noteq> JStr ''expired'' \<and> accessToken s \<noteq> JStr ''expired''),
      largeA = (\<lambda>g. ''a1b2''),
      passwordAuthenticationKey =
        (\<lambda>g n p b s. toStr g @ ''|'' @ toStr n @ ''|'' @ toStr p @ ''|'' @ toStr b @ ''|'' @ toStr s),
      hmac = (\<lambda>k ps. k @ ''#'' @ concat (map (\<lambda>p. case p of Utf8 v \<Rightarrow> toStr v | Base64 v \<Rightarrow> toStr v) ps)),
      nowString = ''Mon Jan 1 00:00:00 UTC 2024'',
      saltDevices = (\<lambda>g a b. ''c2FsdA==''),
      passwordVerifier = (\<lambda>g a b. ''dmVyaWZpZXI=''),
      verifierDevicesBits = (\<lambda>g a b. ''dmVyaWZpZXI=''),
      getRandomPassword = (\<lambda>g a b. JStr ''random-password''),
      userAgent = JStr ''test-agent'',
      newCognitoUserAttribute = (\<lambda>a. Inr a)\<rparr>"

definition alice :: CognitoUser where
  "alice = \<lparr>username = JStr ''alice'',
            pool = \<lparr>userPoolId = ''p_abc'', clientId = ''c1'', paranoia = JNum 7\<rparr>,
            Session = JNull, signInUserSession = None,
            authenticationFlowType = JStr ''USER_SRP_AUTH'',
            deviceKey = JUndefined, randomPassword = JUndefined,
            deviceGroupKey = JUndefined, deviceGroupkey = JUndefined,
            verifierDevices = JUndefined\<rparr>"

definition secret :: AuthenticationDetails where
  "secret = \<lparr>validationData = JArr [], authUsername = JStr ''alice'', password = JStr ''Secret123!''\<rparr>"

definition freshWorld :: "reply list \<Rightarrow> world" where
  "freshWorld rs = \<lparr>storage = Map.empty, sent = [], script = rs\<rparr>"

definition challengeReply :: reply where
  "challengeReply =
     \<lparr>err = JNull,
      data = JObj [(''ChallengeName'', JStr ''PASSWORD_VERIFIER''),
                   (''ChallengeParameters'',
                      JObj [(''USER_ID_FOR_SRP'', JStr ''alice-id''), (''SRP_B'', JStr ''b0b''),
                            (''SALT'', JStr ''5a17''), (''SECRET_BLOCK'', JStr ''c2VjcmV0'')]),
                   (''Session'', JStr ''session-1'')]\<rparr>"

definition tokensReply :: reply where
  "tokensReply =
     \<lparr>err = JNull,
      data = JObj [(''AuthenticationResult'',
                      JObj [(''IdToken'', JStr ''id-1''), (''AccessToken'', JStr ''access-1''),
                            (''RefreshToken'', JStr ''refresh-1'')])]\<rparr>"

definition newDeviceReply :: reply where
  "newDeviceReply =
     \<lparr>err = JNull,
      data = JObj [(''AuthenticationResult'',
                      JObj [(''IdToken'', JStr ''id-1''), (''AccessToken'', JStr ''access-1''),
                            (''RefreshToken'', JStr ''refresh-1''),
                            (''NewDeviceMetadata'',
                               JObj [(''DeviceKey'', JStr ''device-1''),
                                     (''DeviceGroupKey'', JStr ''group-1'')])])]\<rparr>"

definition errorReply :: reply where
  "errorReply = \<lparr>err = JObj [(''code'', JStr ''InternalErrorException'')], data = JNull\<rparr>"

definition mfaReply :: reply where
  "mfaReply =
     \<lparr>err = JNull,
      data = JObj [(''ChallengeName'', JStr ''SMS_MFA''), (''Session'', JStr ''session-2''),
                   (''ChallengeParameters'', JObj [])]\<rparr>"

definition expiredSession :: CognitoUserSession where
  "expiredSession = \<lparr>idToken = JStr ''expired'', accessToken = JStr ''expired'',
                      refreshToken = JStr ''refresh-0''\<rparr>"

definition validTokens :: CognitoUserSession where
  "validTokens = \<lparr>idToken = JStr ''id-1'', accessToken = JStr ''access-1'',
                   refreshToken = JStr ''refresh-1''\<rparr>"

definition handlerCallback :: callbackObject where
  "handlerCallback = \<lparr>callable = False,
                      methods = [''onSuccess'', ''onFailure'', ''inputVerificationCode'']\<rparr>"

definition refreshReply :: reply where
  "refreshReply =
     \<lparr>err = JNull,
      data = JObj [(''AuthenticationResult'',
                      JObj [(''IdToken'', JStr ''id-2''), (''AccessToken'', JStr ''access-2'')])]\<rparr>"



section \<open>Auxiliary facts\<close>

lemma getClientId_simp [simp]: "getClientId p = clientId p"
  by (simp add: getClientId_def)

lemma last_userKey: "f \<noteq> [] \<Longrightarrow> last (userKey u f) = last f"
  by (simp add: userKey_def)

lemma last_lastUserKey: "last (lastUserKey u) = CHR ''r''"
  by (simp add: lastUserKey_def)

lemma userKey_neq_lastUserKey:
  assumes "f \<noteq> []" and "last f \<noteq> CHR ''r''"
  shows "userKey u f \<noteq> lastUserKey u'"
proof
  assume "userKey u f = lastUserKey u'"
  then have "last (userKey u f) = last (lastUserKey u')" by simp
  with assms show False by (simp add: last_userKey last_lastUserKey)
qed

lemma userKey_inj: "userKey u f = userKey u g \<longleftrightarrow> f = g"
  by (simp add: userKey_def)

lemma storage_setItem: "storage (setItem k v w) = (storage w)(k \<mapsto> toStr v)"
  by (simp add: setItem_def)

lemma sent_setItem: "sent (setItem k v w) = sent w" "script (setItem k v w) = script w"
  by (simp_all add: setItem_def)

lemma cacheTokens_Some:
  "signInUserSession u = Some s \<Longrightarrow>
   cacheTokens u w = Inr (w\<lparr>storage := (storage w)(userKey u ''idToken'' \<mapsto> toStr (idToken s),
       userKey u ''accessToken'' \<mapsto> toStr (accessToken s),
       userKey u ''refreshToken'' \<mapsto> toStr (refreshToken s),
       lastUserKey u \<mapsto> toStr (username u))\<rparr>)"
  by (simp add: cacheTokens_def setItem_def)

lemma storage_cacheDevice:
  "storage (cacheDeviceKeyAndPassword u w) =
     (storage w)(userKey u ''deviceKey'' \<mapsto> toStr (deviceKey u),
                 userKey u ''randomPasswordKey'' \<mapsto> toStr (randomPassword u),
                 userKey u ''deviceGroupKey'' \<mapsto> toStr (deviceGroupKey u))"
  by (simp add: cacheDeviceKeyAndPassword_def setItem_def)

lemma tokensCached_cacheTokens:
  "signInUserSession u = Some s \<Longrightarrow> cacheTokens u w = Inr w' \<Longrightarrow> tokensCached u s w'"
  by (auto simp: cacheTokens_Some tokensCached_def getItem_def userKey_inj userKey_neq_lastUserKey)

lemma tokensCached_cacheDevice:
  "tokensCached u s w \<Longrightarrow> username u' = username u \<Longrightarrow> pool u' = pool u \<Longrightarrow>
   tokensCached u s (cacheDeviceKeyAndPassword u' w)"
proof -
  assume t: "tokensCached u s w" and n: "username u' = username u" and p: "pool u' = pool u"
  have k: "\<And>f. userKey u' f = userKey u f" using n p by (simp add: userKey_def)
  show ?thesis using t
    by (simp add: tokensCached_def getItem_def storage_cacheDevice k userKey_inj
        userKey_neq_lastUserKey[symmetric])
qed

lemma userKey_update [simp]:
  "userKey (u\<lparr>Session := a\<rparr>) = userKey u"
  "userKey (u\<lparr>signInUserSession := b\<rparr>) = userKey u"
  "userKey (u\<lparr>deviceKey := a\<rparr>) = userKey u"
  "userKey (u\<lparr>randomPassword := a\<rparr>) = userKey u"
  "userKey (u\<lparr>deviceGroupKey := a\<rparr>) = userKey u"
  "userKey (u\<lparr>deviceGroupkey := a\<rparr>) = userKey u"
  "userKey (u\<lparr>verifierDevices := a\<rparr>) = userKey u"
  by (simp_all add: userKey_def fun_eq_iff)

lemma lastUserKey_update [simp]:
  "lastUserKey (u\<lparr>username := a\<rparr>) = lastUserKey u"
  "lastUserKey (u\<lparr>Session := a\<rparr>) = lastUserKey u"
  "lastUserKey (u\<lparr>signInUserSession := b\<rparr>) = lastUserKey u"
  "lastUserKey (u\<lparr>deviceKey := a\<rparr>) = lastUserKey u"
  "lastUserKey (u\<lparr>randomPassword := a\<rparr>) = lastUserKey u"
  "lastUserKey (u\<lparr>deviceGroupKey := a\<rparr>) = lastUserKey u"
  "lastUserKey (u\<lparr>deviceGroupkey := a\<rparr>) = lastUserKey u"
  "lastUserKey (u\<lparr>verifierDevices := a\<rparr>) = lastUserKey u"
  by (simp_all add: lastUserKey_def)

lemma cacheKeys_update [simp]:
  "cacheKeys (u\<lparr>Session := a\<rparr>) = cacheKeys u"
  "cacheKeys (u\<lparr>signInUserSession := b\<rparr>) = cacheKeys u"
  "cacheKeys (u\<lparr>deviceKey := a\<rparr>) = cacheKeys u"
  "cacheKeys (u\<lparr>randomPassword := a\<rparr>) = cacheKeys u"
  "cacheKeys (u\<lparr>deviceGroupKey := a\<rparr>) = cacheKeys u"
  "cacheKeys (u\<lparr>deviceGroupkey := a\<rparr>) = cacheKeys u"
  "cacheKeys (u\<lparr>verifierDevices := a\<rparr>) = cacheKeys u"
  by (simp_all add: cacheKeys_def)

lemma andThen_request:
  "andThen (makeUnauthenticatedRequest opn ps w) u k =
     (case script w of
        [] \<Rightarrow> (u, w\<lparr>sent := sent w @ [\<lparr>operation = opn, params = ps\<rparr>]\<rparr>, Pending)
      | r # rs \<Rightarrow> k r u (w\<lparr>sent := sent w @ [\<lparr>operation = opn, params = ps\<rparr>], script := rs\<rparr>))"
  by (simp add: andThen_def makeUnauthenticatedRequest_def Let_def split: list.split)





lemma sent_cacheDevice [simp]:
  "sent (cacheDeviceKeyAndPassword u w) = sent w"
  "script (cacheDeviceKeyAndPassword u w) = script w"
  by (simp_all add: cacheDeviceKeyAndPassword_def setItem_def)

lemma cacheTokens_frame:
  "cacheTokens u w = Inr w' \<Longrightarrow>
     sent w' = sent w \<and> script w' = script w \<and> (\<forall>k. storage w' k \<noteq> storage w k \<longrightarrow> k \<in> cacheKeys u)"
  by (auto simp: cacheTokens_def setItem_def cacheKeys_def split: option.splits if_splits)




lemma carries_other [simp]:
  "opn \<noteq> ''respondToAuthChallenge'' \<Longrightarrow> carriesUsername n \<lparr>operation = opn, params = ps\<rparr>"
  by (simp add: carriesUsername_def)









lemma tokensCached_world [simp]:
  "tokensCached u s (w\<lparr>sent := a\<rparr>) = tokensCached u s w"
  "tokensCached u s (w\<lparr>script := b\<rparr>) = tokensCached u s w"
  by (simp_all add: tokensCached_def getItem_def)

lemma tokensCached_user:
  "username u' = username u \<Longrightarrow> pool u' = pool u \<Longrightarrow> tokensCached u' s w = tokensCached u s w"
  by (simp add: tokensCached_def userKey_def lastUserKey_def)

lemma onConfirmDevice_final:
  assumes "onConfirmDevice ar r u w = (u', w', out)"
  shows "signInUserSession u' = signInUserSession u" and "Session u' = Session u"
    and "tokensCached u s w \<Longrightarrow> tokensCached u s w'"
    and "sent w' = sent w" and "finalOutcome out"
    and "truthy (err r) \<Longrightarrow> out = onFailure [Val (err r)]"
  using assms
  by (auto simp: onConfirmDevice_def Let_def finalOutcome_def tokensCached_cacheDevice split: if_splits)

lemma confirmNewDevice_final:
  assumes res: "confirmNewDevice e g ar u w = (u', w', out)"
  shows "signInUserSession u' = signInUserSession u \<and> Session u' = Session u
       \<and> (tokensCached u s w \<longrightarrow> tokensCached u s w')
       \<and> (map operation (sent w') = map operation (sent w) \<or>
          map operation (sent w') = map operation (sent w) @ [''confirmDevice''])
       \<and> finalOutcome out
       \<and> (signInUserSession u \<noteq> None \<longrightarrow> (\<forall>r rs. script w = r # rs \<and> truthy (err r) \<longrightarrow>
            out = onFailure [Val (err r)]))"
proof -
  define u1 where "u1 = u\<lparr>verifierDevices := JStr (verifierDevicesBits e g
                 (getProp (getProp ar ''NewDeviceMetadata'') ''DeviceGroupKey'')
                 (getProp (getProp ar ''NewDeviceMetadata'') ''DeviceKey'')),
               deviceGroupKey := getProp (getProp ar ''NewDeviceMetadata'') ''DeviceGroupKey'',
               randomPassword := getRandomPassword e g
                 (getProp (getProp ar ''NewDeviceMetadata'') ''DeviceGroupKey'')
                 (getProp (getProp ar ''NewDeviceMetadata'') ''DeviceKey'')\<rparr>"
  have u1: "signInUserSession u1 = signInUserSession u" "Session u1 = Session u"
    "username u1 = username u" "pool u1 = pool u"
    by (simp_all add: u1_def)
  have tc: "\<And>w. tokensCached u1 s w = tokensCached u s w"
    by (rule tokensCached_user) (simp_all add: u1)
  show ?thesis
  proof (cases "signInUserSession u")
    case None
    then have "(u', w', out) = (u1, w, Threw TypeError)"
      using res by (simp add: confirmNewDevice_def Let_def u1_def)
    then show ?thesis using u1 None by (simp add: finalOutcome_def)
  next
    case (Some s0)
    show ?thesis
    proof (cases "script w")
      case Nil
      then have "\<exists>q. (u', w', out) = (u1, w\<lparr>sent := sent w @ [\<lparr>operation = ''confirmDevice'', params = q\<rparr>]\<rparr>, Pending)"
        using res Some by (auto simp add: confirmNewDevice_def Let_def u1_def andThen_request)
      then show ?thesis using u1 Nil by (auto simp: finalOutcome_def)
    next
      case (Cons r rs)
      then obtain q where
        "onConfirmDevice ar r u1 (w\<lparr>sent := sent w @ [\<lparr>operation = ''confirmDevice'', params = q\<rparr>], script := rs\<rparr>)
           = (u', w', out)"
        using res Some by (auto simp add: confirmNewDevice_def Let_def u1_def andThen_request)
      note f = onConfirmDevice_final[OF this]
      from f(1,2,4,5,6) f(3)[of s] show ?thesis
        using u1 tc Cons by simp
    qed
  qed
qed

lemma completeAuthentication_final:
  assumes res: "completeAuthentication e g d u w = (u', w', out)"
    and s: "s = getCognitoUserSession e (getProp d ''AuthenticationResult'')"
  shows "signInUserSession u' = Some s \<and> Session u' = Session u \<and> tokensCached u s w'
       \<and> (map operation (sent w') = map operation (sent w) \<or>
          map operation (sent w') = map operation (sent w) @ [''confirmDevice''])
       \<and> finalOutcome out
       \<and> (\<not> nullish (getProp d ''AuthenticationResult'') \<and>
          nullish (getProp (getProp d ''AuthenticationResult'') ''NewDeviceMetadata'') \<longrightarrow>
            out = onSuccess [Sess s])
       \<and> (\<not> nullish (getProp d ''AuthenticationResult'') \<and>
          \<not> nullish (getProp (getProp d ''AuthenticationResult'') ''NewDeviceMetadata'') \<longrightarrow>
            (\<forall>r rs. script w = r # rs \<and> truthy (err r) \<longrightarrow> out = onFailure [Val (err r)]))"
proof -
  define u1 where "u1 = u\<lparr>signInUserSession := Some s\<rparr>"
  have u1: "signInUserSession u1 = Some s" "Session u1 = Session u"
    "username u1 = username u" "pool u1 = pool u"
    by (simp_all add: u1_def)
  obtain w1 where w1: "cacheTokens u1 w = Inr w1"
    using cacheTokens_Some[OF u1(1)] by blast
  have f: "sent w1 = sent w" "script w1 = script w"
    using cacheTokens_frame[OF w1] by simp_all
  have tc: "\<And>w. tokensCached u1 s w = tokensCached u s w"
    by (rule tokensCached_user) (simp_all add: u1)
  have c1: "tokensCached u s w1"
    using tokensCached_cacheTokens[OF u1(1) w1] tc by simp
  have unfold: "completeAuthentication e g d u w =
      (if nullish (getProp d ''AuthenticationResult'') then (u1, w1, Threw TypeError)
       else if \<not> nullish (getProp (getProp d ''AuthenticationResult'') ''NewDeviceMetadata'')
       then confirmNewDevice e g (getProp d ''AuthenticationResult'') u1 w1
       else (u1, w1, onSuccess [Sess s]))"
    using w1 by (simp add: completeAuthentication_def Let_def u1_def s sessionArg_def)
  show ?thesis
  proof (cases "\<not> nullish (getProp d ''AuthenticationResult'') \<and>
                \<not> nullish (getProp (getProp d ''AuthenticationResult'') ''NewDeviceMetadata'')")
    case True
    then have "confirmNewDevice e g (getProp d ''AuthenticationResult'') u1 w1 = (u', w', out)"
      using res unfold by simp
    from confirmNewDevice_final[OF this, of s] show ?thesis
      using u1 tc c1 f True by simp
  next
    case False
    then have "(u', w', out) =
        (u1, w1, if nullish (getProp d ''AuthenticationResult'') then Threw TypeError else onSuccess [Sess s])"
      using res unfold by (auto split: if_splits)
    then show ?thesis using u1 c1 f False by (auto simp: finalOutcome_def)
  qed
qed

lemmas fixtures = testEnv_def alice_def secret_def freshWorld_def challengeReply_def tokensReply_def
  newDeviceReply_def errorReply_def mfaReply_def

lemmas flow_defs = authenticateUser_def onInitiateAuth_def passwordVerifierRequest_def
  onPasswordVerifier_def completeAuthentication_def confirmNewDevice_def onConfirmDevice_def
  getDeviceResponse_def onDeviceSrpAuth_def devicePasswordVerifierRequest_def
  onDevicePasswordVerifier_def sendMFACode_def onMFACode_def
  andThen_def makeUnauthenticatedRequest_def getCachedDeviceKeyAndPassword_def cacheTokens_def
  cacheDeviceKeyAndPassword_def getCognitoUserSession_def poolName_def elemAt_def getItem_def
  setItem_def userKey_def lastUserKey_def getUserPoolId_def getClientId_def getPassword_def
  getValidationData_def sessionArg_def Let_def

lemma alice_constructed:
  "CognitoUser_new (JStr ''alice'')
     (Some \<lparr>userPoolId = ''p_abc'', clientId = ''c1'', paranoia = JNum 7\<rparr>) = Inr alice"
  by (simp add: CognitoUser_new_def alice_def)

lemma secret_constructed:
  "AuthenticationDetails_new (JObj [(''Username'', JStr ''alice''), (''Password'', JStr ''Secret123!'')])
     = secret"
  by (simp add: AuthenticationDetails_new_def secret_def)

lemma protected_operations_without_session:
  assumes "signInUserSession u = None \<or> (\<exists>s. signInUserSession u = Some s \<and> \<not> isValid e s)"
  shows "changePassword e oldUserPassword newUserPassword cb u w = (u, w, notAuthenticated cb)
       \<and> enableMFA e cb u w = (u, w, notAuthenticated cb)
       \<and> disableMFA e cb u w = (u, w, notAuthenticated cb)
       \<and> deleteUser e cb u w = (u, w, notAuthenticated cb)
       \<and> updateAttributes e attributes cb u w = (u, w, notAuthenticated cb)
       \<and> getUserAttributes e cb u w = (u, w, notAuthenticated cb)
       \<and> deleteAttributes e attributeNames cb u w = (u, w, notAuthenticated cb)
       \<and> getAttributeVerificationCode e attributeName cb u w = (u, w, notAuthenticated cb)
       \<and> verifyAttribute e attributeName confirmationCode cb u w = (u, w, notAuthenticated cb)
       \<and> getDevice e cb u w = (u, w, notAuthenticated cb)
       \<and> forgetDevice e cb u w = (u, w, notAuthenticated cb)
       \<and> setDeviceStatusRemembered e cb u w = (u, w, notAuthenticated cb)
       \<and> setDeviceStatusNotRemembered e cb u w = (u, w, notAuthenticated cb)
       \<and> listDevices e limit paginationToken cb u w = (u, w, notAuthenticated cb)
       \<and> globalSignOut e cb u w = (u, w, notAuthenticated cb)"
proof -
  have v: "validSession e u = None"
    using assms by (auto simp: validSession_def)
  show ?thesis
    by (simp add: v changePassword_def enableMFA_def disableMFA_def deleteUser_def
        updateAttributes_def getUserAttributes_def deleteAttributes_def
        getAttributeVerificationCode_def verifyAttribute_def getDevice_def forgetDevice_def
        setDeviceStatusRemembered_def setDeviceStatusNotRemembered_def listDevices_def
        globalSignOut_def)
qed

lemma notAuthenticated_delivery:
  "notAuthenticated cb =
     (if callable cb then callback [Val (JError ''User is not authenticated''), Val JNull]
      else Threw TypeError)"
  by (simp add: notAuthenticated_def callFunction_def)

lemma getProp_object: "getProp d k = JObj kvs \<Longrightarrow> truthy d \<and> \<not> nullish d"
  by (cases d) simp_all

lemma getProp_update: "getProp (JObj (AList.update k v kvs)) k = v"
  by (simp add: update_conv')

lemma getCached_keeps [simp]:
  "username (getCachedDeviceKeyAndPassword u w) = username u"
  "pool (getCachedDeviceKeyAndPassword u w) = pool u"
  by (simp_all add: getCachedDeviceKeyAndPassword_def)










section \<open>The claims\<close>

text \<open>
  Claim C1. For a reply to the \<^verbatim>\<open>PASSWORD_VERIFIER\<close> round that carries no error, the
  callback selects the next step by \<^verbatim>\<open>ChallengeName\<close>: on \<^verbatim>\<open>SMS_MFA\<close> it stores the
  provider's session token and reports \<^verbatim>\<open>mfaRequired\<close>; on \<^verbatim>\<open>CUSTOM_CHALLENGE\<close> it stores
  the session token and reports \<^verbatim>\<open>customChallenge\<close>; on \<^verbatim>\<open>DEVICE_SRP_AUTH\<close> it runs
  \<^verbatim>\<open>getDeviceResponse\<close>; with no \<^verbatim>\<open>ChallengeName\<close> it builds the session from
  \<^verbatim>\<open>AuthenticationResult\<close> and the tokens are in the cache however the branch ends, hence
  before any report of success, which comes at once when the result names no new device.
\<close>

theorem password_verifier_branches:
  assumes "\<not> truthy (err r)" and "\<not> nullish (data r)"
  shows "(getProp (data r) ''ChallengeName'' = JStr ''SMS_MFA'' \<longrightarrow>
            onPasswordVerifier e g r u w =
              (u\<lparr>Session := getProp (data r) ''Session''\<rparr>, w, mfaRequired [Val (JStr ''SMS_MFA'')]))
       \<and> (getProp (data r) ''ChallengeName'' = JStr ''CUSTOM_CHALLENGE'' \<longrightarrow>
            onPasswordVerifier e g r u w =
              (u\<lparr>Session := getProp (data r) ''Session''\<rparr>, w,
               customChallenge [Val (getProp (data r) ''ChallengeParameters'')]))
       \<and> (getProp (data r) ''ChallengeName'' = JStr ''DEVICE_SRP_AUTH'' \<longrightarrow>
            onPasswordVerifier e g r u w = getDeviceResponse e u w)
       \<and> (nullish (getProp (data r) ''ChallengeName'') \<longrightarrow>
            (case onPasswordVerifier e g r u w of (u', w', out) \<Rightarrow>
               signInUserSession u' =
                 Some (getCognitoUserSession e (getProp (data r) ''AuthenticationResult''))
             \<and> tokensCached u (getCognitoUserSession e (getProp (data r) ''AuthenticationResult'')) w'
             \<and> (\<not> nullish (getProp (data r) ''AuthenticationResult'') \<and>
                 nullish (getProp (getProp (data r) ''AuthenticationResult'') ''NewDeviceMetadata'') \<longrightarrow>
                   out = onSuccess [Sess (getCognitoUserSession e (getProp (data r) ''AuthenticationResult''))])))"
proof (intro conjI impI)
  assume "nullish (getProp (data r) ''ChallengeName'')"
  then have eq: "onPasswordVerifier e g r u w = completeAuthentication e g (data r) u w"
    using assms by (auto simp: onPasswordVerifier_def Let_def)
  obtain u' w' out where res: "completeAuthentication e g (data r) u w = (u', w', out)"
    by (cases "completeAuthentication e g (data r) u w") auto
  from completeAuthentication_final[OF res refl]
  show "case onPasswordVerifier e g r u w of (u', w', out) \<Rightarrow>
               signInUserSession u' =
                 Some (getCognitoUserSession e (getProp (data r) ''AuthenticationResult''))
             \<and> tokensCached u (getCognitoUserSession e (getProp (data r) ''AuthenticationResult'')) w'
             \<and> (\<not> nullish (getProp (data r) ''AuthenticationResult'') \<and>
                 nullish (getProp (getProp (data r) ''AuthenticationResult'') ''NewDeviceMetadata'') \<longrightarrow>
                   out = onSuccess [Sess (getCognitoUserSession e (getProp (data r) ''AuthenticationResult''))])"
    by (simp add: eq res)
qed (simp_all add: assms onPasswordVerifier_def)

text \<open>The theorem at the \<^verbatim>\<open>SMS_MFA\<close> reply and at the reply with three tokens.\<close>

theorem password_verifier_branches_witness:
  "onPasswordVerifier testEnv (JStr ''abc'') mfaReply alice (freshWorld []) =
     (alice\<lparr>Session := JStr ''session-2''\<rparr>, freshWorld [], mfaRequired [Val (JStr ''SMS_MFA'')])
   \<and> (case onPasswordVerifier testEnv (JStr ''abc'') tokensReply alice (freshWorld []) of
        (u', w', out) \<Rightarrow>
          signInUserSession u' =
            Some \<lparr>idToken = JStr ''id-1'', accessToken = JStr ''access-1'', refreshToken = JStr ''refresh-1''\<rparr>
        \<and> getItem w' ''CognitoIdentityServiceProvider.c1.alice.idToken'' = JStr ''id-1''
        \<and> out = onSuccess [Sess \<lparr>idToken = JStr ''id-1'', accessToken = JStr ''access-1'',
                                   refreshToken = JStr ''refresh-1''\<rparr>])"
proof -
  have m: "\<not> truthy (err mfaReply)" "\<not> nullish (data mfaReply)"
    by (simp_all add: mfaReply_def)
  have t: "\<not> truthy (err tokensReply)" "\<not> nullish (data tokensReply)"
    by (simp_all add: tokensReply_def)
  show ?thesis
    using password_verifier_branches[OF m, where e = testEnv and g = "JStr ''abc''" and u = alice
        and w = "freshWorld []"]
      password_verifier_branches[OF t, where e = testEnv and g = "JStr ''abc''" and u = alice
        and w = "freshWorld []"]
    by (simp add: fixtures flow_defs tokensCached_def)
qed

text \<open>
  Claim C2 as stated fails. The provider answers \<^verbatim>\<open>initiateAuth\<close> with the challenge, the
  \<^verbatim>\<open>PASSWORD_VERIFIER\<close> round with tokens and \<^verbatim>\<open>NewDeviceMetadata\<close>, and \<^verbatim>\<open>confirmDevice\<close>
  with an error: \<^verbatim>\<open>authenticateUser\<close> ends in \<^verbatim>\<open>onFailure\<close> with that error (line 197), not in
  \<^verbatim>\<open>onSuccess\<close>.
\<close>

theorem confirmDevice_error_counterexample:
  "snd (snd (authenticateUser testEnv secret alice
               (freshWorld [challengeReply, newDeviceReply, errorReply])))
     = onFailure [Val (JObj [(''code'', JStr ''InternalErrorException'')])]"
  by (simp add: fixtures flow_defs)

text \<open>
  Claim C2, amended. When the reply to the \<^verbatim>\<open>PASSWORD_VERIFIER\<close> round, or to the
  \<^verbatim>\<open>SMS_MFA\<close> round of \<^verbatim>\<open>sendMFACode\<close>, carries tokens and \<^verbatim>\<open>NewDeviceMetadata\<close>, and the
  \<^verbatim>\<open>confirmDevice\<close> call that follows returns an error, the authentication is reported to
  the caller as a failure, with the error of \<^verbatim>\<open>confirmDevice\<close>; the session built from the
  tokens stays in memory and the tokens stay in the cache.
\<close>

theorem confirmDevice_error_reported_as_failure:
  assumes "\<not> truthy (err r)" and "\<not> nullish (data r)"
    and "nullish (getProp (data r) ''ChallengeName'')"
    and "\<not> nullish (getProp (data r) ''AuthenticationResult'')"
    and "\<not> nullish (getProp (getProp (data r) ''AuthenticationResult'') ''NewDeviceMetadata'')"
    and "script w = r2 # rs" and "truthy (err r2)"
  shows "(case onPasswordVerifier e g r u w of (u', w', out) \<Rightarrow>
            out = onFailure [Val (err r2)]
          \<and> signInUserSession u' = Some (getCognitoUserSession e (getProp (data r) ''AuthenticationResult''))
          \<and> tokensCached u (getCognitoUserSession e (getProp (data r) ''AuthenticationResult'')) w')
       \<and> (case onMFACode e r u w of (u', w', out) \<Rightarrow>
            out = onFailure [Val (err r2)]
          \<and> signInUserSession u' = Some (getCognitoUserSession e (getProp (data r) ''AuthenticationResult''))
          \<and> tokensCached u (getCognitoUserSession e (getProp (data r) ''AuthenticationResult'')) w')"
proof -
  have eq1: "onPasswordVerifier e g r u w = completeAuthentication e g (data r) u w"
    using assms(1-3) by (auto simp: onPasswordVerifier_def Let_def)
  have eq2: "onMFACode e r u w = completeAuthentication e (poolName u) (data r) u w"
    using assms(1,2) by (simp add: onMFACode_def)
  have "\<And>g. case completeAuthentication e g (data r) u w of (u', w', out) \<Rightarrow>
            out = onFailure [Val (err r2)]
          \<and> signInUserSession u' = Some (getCognitoUserSession e (getProp (data r) ''AuthenticationResult''))
          \<and> tokensCached u (getCognitoUserSession e (getProp (data r) ''AuthenticationResult'')) w'"
  proof -
    fix g
    obtain u' w' out where res: "completeAuthentication e g (data r) u w = (u', w', out)"
      by (cases "completeAuthentication e g (data r) u w") auto
    from completeAuthentication_final[OF res refl] assms(4-7)
    show "case completeAuthentication e g (data r) u w of (u', w', out) \<Rightarrow>
            out = onFailure [Val (err r2)]
          \<and> signInUserSession u' = Some (getCognitoUserSession e (getProp (data r) ''AuthenticationResult''))
          \<and> tokensCached u (getCognitoUserSession e (getProp (data r) ''AuthenticationResult'')) w'"
      by (simp add: res)
  qed
  then show ?thesis by (simp add: eq1 eq2)
qed

text \<open>The theorem at the reply with a new device, followed by an error.\<close>

theorem confirmDevice_error_reported_as_failure_witness:
  "(case onPasswordVerifier testEnv (JStr ''abc'') newDeviceReply alice (freshWorld [errorReply]) of
      (u', w', out) \<Rightarrow>
        out = onFailure [Val (JObj [(''code'', JStr ''InternalErrorException'')])]
      \<and> signInUserSession u' =
          Some \<lparr>idToken = JStr ''id-1'', accessToken = JStr ''access-1'', refreshToken = JStr ''refresh-1''\<rparr>
      \<and> getItem w' ''CognitoIdentityServiceProvider.c1.alice.accessToken'' = JStr ''access-1'')
   \<and> (case onMFACode testEnv newDeviceReply alice (freshWorld [errorReply]) of
      (u', w', out) \<Rightarrow> out = onFailure [Val (JObj [(''code'', JStr ''InternalErrorException'')])])"
proof -
  have h: "\<not> truthy (err newDeviceReply)" "\<not> nullish (data newDeviceReply)"
    "nullish (getProp (data newDeviceReply) ''ChallengeName'')"
    "\<not> nullish (getProp (data newDeviceReply) ''AuthenticationResult'')"
    "\<not> nullish (getProp (getProp (data newDeviceReply) ''AuthenticationResult'') ''NewDeviceMetadata'')"
    "script (freshWorld [errorReply]) = errorReply # []" "truthy (err errorReply)"
    by (simp_all add: newDeviceReply_def freshWorld_def errorReply_def)
  show ?thesis
    using confirmDevice_error_reported_as_failure[OF h, where e = testEnv and g = "JStr ''abc''" and u = alice]
    by (simp add: fixtures flow_defs tokensCached_def)
qed

text \<open>
  Claim C3 as stated fails. For \<^verbatim>\<open>alice\<close> of the pool \<^verbatim>\<open>p_abc\<close> and the client \<^verbatim>\<open>c1\<close>,
  \<^verbatim>\<open>cacheTokens\<close> writes under \<^verbatim>\<open>CognitoIdentityServiceProvider.c1.alice.idToken\<close> and
  nothing under \<^verbatim>\<open>p_abc_c1_USERPOOL.c1.alice.idToken\<close>; a user of another pool with the same
  client and name gets the same key, so the first component does not identify the pool.
\<close>

theorem cacheTokens_provider_key_counterexample:
  "cacheTokens
     (alice\<lparr>signInUserSession :=
              Some \<lparr>idToken = JStr ''id-1'', accessToken = JStr ''access-1'',
                     refreshToken = JStr ''refresh-1''\<rparr>\<rparr>)
     (freshWorld [])
   = Inr \<lparr>storage = [''CognitoIdentityServiceProvider.c1.alice.idToken'' \<mapsto> ''id-1'',
                      ''CognitoIdentityServiceProvider.c1.alice.accessToken'' \<mapsto> ''access-1'',
                      ''CognitoIdentityServiceProvider.c1.alice.refreshToken'' \<mapsto> ''refresh-1'',
                      ''CognitoIdentityServiceProvider.c1.LastAuthUser'' \<mapsto> ''alice''],
          sent = [], script = []\<rparr>
   \<and> getItem \<lparr>storage = [''CognitoIdentityServiceProvider.c1.alice.idToken'' \<mapsto> ''id-1'',
                      ''CognitoIdentityServiceProvider.c1.alice.accessToken'' \<mapsto> ''access-1'',
                      ''CognitoIdentityServiceProvider.c1.alice.refreshToken'' \<mapsto> ''refresh-1'',
                      ''CognitoIdentityServiceProvider.c1.LastAuthUser'' \<mapsto> ''alice''],
          sent = [], script = []\<rparr> ''p_abc_c1_USERPOOL.c1.alice.idToken'' = JNull
   \<and> userKey (alice\<lparr>pool := \<lparr>userPoolId = ''q_xyz'', clientId = ''c1'', paranoia = JNum 7\<rparr>\<rparr>) ''idToken''
       = userKey alice ''idToken''"
  by (simp add: cacheTokens_def setItem_def getItem_def userKey_def lastUserKey_def getClientId_def
      alice_def freshWorld_def)

text \<open>
  Claim C3, amended. \<^verbatim>\<open>cacheTokens\<close> stores the ID, access and refresh tokens under
  \<^verbatim>\<open>CognitoIdentityServiceProvider.{clientId}.{username}.{field}\<close> for the fields
  \<^verbatim>\<open>idToken\<close>, \<^verbatim>\<open>accessToken\<close> and \<^verbatim>\<open>refreshToken\<close>, and the username under
  \<^verbatim>\<open>CognitoIdentityServiceProvider.{clientId}.LastAuthUser\<close>; the first component is that
  fixed text, and no key depends on the pool id.
\<close>

theorem cacheTokens_keys:
  "cacheTokens (u\<lparr>signInUserSession := Some s\<rparr>) w =
     Inr (w\<lparr>storage := (storage w)
        (''CognitoIdentityServiceProvider.'' @ clientId (pool u) @ ''.'' @ toStr (username u) @ ''.idToken''
           \<mapsto> toStr (idToken s),
         ''CognitoIdentityServiceProvider.'' @ clientId (pool u) @ ''.'' @ toStr (username u) @ ''.accessToken''
           \<mapsto> toStr (accessToken s),
         ''CognitoIdentityServiceProvider.'' @ clientId (pool u) @ ''.'' @ toStr (username u) @ ''.refreshToken''
           \<mapsto> toStr (refreshToken s),
         ''CognitoIdentityServiceProvider.'' @ clientId (pool u) @ ''.LastAuthUser''
           \<mapsto> toStr (username u))\<rparr>)
   \<and> userKey (u\<lparr>pool := (pool u)\<lparr>userPoolId := p\<rparr>\<rparr>) f = userKey u f
   \<and> lastUserKey (u\<lparr>pool := (pool u)\<lparr>userPoolId := p\<rparr>\<rparr>) = lastUserKey u"
  by (simp add: cacheTokens_def setItem_def userKey_def lastUserKey_def getClientId_def)

text \<open>
  Claim C4 fails in the code where no ID token is cached. \<^verbatim>\<open>getSession\<close> for \<^verbatim>\<open>alice\<close>,
  with no session in memory and an empty storage, returns without invoking the callback:
  the \<^verbatim>\<open>if\<close> of line 637 has no \<^verbatim>\<open>else\<close>. The claim, like the comment of the method
  (\<^verbatim>\<open>@returns error or session\<close>), has the callback invoked with an error there.
\<close>

theorem getSession_without_cached_id_token:
  "getSession e alice (freshWorld rs) = (alice, freshWorld rs, NoCallback)"
  by (simp add: getSession_def validSession_def alice_def freshWorld_def getItem_def)






text \<open>
  Claim C7. When the \<^verbatim>\<open>REFRESH_TOKEN_AUTH\<close> call of \<^verbatim>\<open>refreshSession\<close> succeeds with an
  \<^verbatim>\<open>AuthenticationResult\<close> object, the session is built from that result with
  \<^verbatim>\<open>RefreshToken\<close> set to the token passed in if the result has no such field, and from the
  result as it is otherwise; that session replaces the one in memory, its tokens are written
  to the cache, and it is handed to the callback.
\<close>

theorem refreshSession_retains_refresh_token:
  assumes "script w = r # rs" and "\<not> truthy (err r)"
    and "getProp (data r) ''AuthenticationResult'' = JObj kvs"
  shows "case refreshSession e token u w of (u', w', out) \<Rightarrow>
           (let authResult = (if hasOwnProperty (JObj kvs) ''RefreshToken'' then JObj kvs
                              else JObj (AList.update ''RefreshToken'' token kvs));
                s = getCognitoUserSession e authResult
            in getProp authResult ''RefreshToken'' =
                 (if hasOwnProperty (JObj kvs) ''RefreshToken'' then getProp (JObj kvs) ''RefreshToken''
                  else token)
             \<and> signInUserSession u' = Some s
             \<and> tokensCached u' s w'
             \<and> out = callback [Val JNull, Sess s])"
proof -
  define authResult where "authResult =
    (if hasOwnProperty (JObj kvs) ''RefreshToken'' then JObj kvs
     else JObj (AList.update ''RefreshToken'' token kvs))"
  define s where "s = getCognitoUserSession e authResult"
  define u1 where "u1 = (if truthy (getItem w (lastUserKey u))
                then let u' = u\<lparr>username := getItem w (lastUserKey u)\<rparr>
                     in u'\<lparr>deviceKey := getItem w (userKey u' ''deviceKey'')\<rparr>
                else u)"
  define u2 where "u2 = u1\<lparr>signInUserSession := Some s\<rparr>"
  have d: "truthy (data r)" using getProp_object[OF assms(3)] by simp
  have u2: "signInUserSession u2 = Some s" by (simp add: u2_def)
  obtain w1 where w1: "refreshSession e token u w = onRefresh e token r u1 w1"
    using assms(1) by (simp add: refreshSession_def Let_def andThen_request u1_def)
  obtain w2 where w2: "cacheTokens u2 w1 = Inr w2"
    using cacheTokens_Some[OF u2] by blast
  have ar: "(if \<not> hasOwnProperty (JObj kvs) ''RefreshToken''
             then assign (JObj kvs) ''RefreshToken'' token else Inr (JObj kvs)) = Inr authResult"
    by (simp add: authResult_def)
  have "onRefresh e token r u1 w1 = (u2, w2, callback [Val JNull, Sess s])"
    using assms(2) d w2[unfolded u2_def s_def]
    by (simp add: onRefresh_def Let_def assms(3) ar s_def u2_def sessionArg_def
        del: hasOwnProperty.simps assign.simps)
  moreover have "tokensCached u2 s w2" by (rule tokensCached_cacheTokens[OF u2 w2])
  moreover have "getProp authResult ''RefreshToken'' =
                 (if hasOwnProperty (JObj kvs) ''RefreshToken'' then getProp (JObj kvs) ''RefreshToken''
                  else token)"
    by (simp add: authResult_def getProp_update del: getProp.simps)
  ultimately show ?thesis
    using u2 by (simp add: w1 Let_def authResult_def[symmetric] s_def[symmetric] del: getProp.simps hasOwnProperty.simps)
qed

text \<open>The theorem at a result without \<^verbatim>\<open>RefreshToken\<close>.\<close>

theorem refreshSession_retains_refresh_token_witness:
  "case refreshSession testEnv (JStr ''refresh-0'') alice (freshWorld [refreshReply]) of
     (u', w', out) \<Rightarrow>
       signInUserSession u' =
         Some \<lparr>idToken = JStr ''id-2'', accessToken = JStr ''access-2'', refreshToken = JStr ''refresh-0''\<rparr>
     \<and> getItem w' ''CognitoIdentityServiceProvider.c1.alice.refreshToken'' = JStr ''refresh-0''
     \<and> out = callback [Val JNull, Sess \<lparr>idToken = JStr ''id-2'', accessToken = JStr ''access-2'',
                                          refreshToken = JStr ''refresh-0''\<rparr>]"
proof -
  have h: "script (freshWorld [refreshReply]) = refreshReply # []" "\<not> truthy (err refreshReply)"
    "getProp (data refreshReply) ''AuthenticationResult'' =
       JObj [(''IdToken'', JStr ''id-2''), (''AccessToken'', JStr ''access-2'')]"
    by (simp_all add: freshWorld_def refreshReply_def)
  show ?thesis
    using refreshSession_retains_refresh_token[OF h, where e = testEnv and token = "JStr ''refresh-0''"
        and u = alice]
    by (simp add: fixtures flow_defs refreshReply_def refreshSession_def onRefresh_def tokensCached_def)
qed



text \<open>
  Claim C9 fails in the code for eight of the fifteen operations. With no valid session every
  one of them leaves the user and the world as they were, so no request is sent, and calls
  \<^verbatim>\<open>callback(new Error('User is not authenticated'), null)\<close>. Seven operations use their
  callback as a function on both paths. The other eight, \<^verbatim>\<open>getAttributeVerificationCode\<close>,
  \<^verbatim>\<open>verifyAttribute\<close>, \<^verbatim>\<open>getDevice\<close>, \<^verbatim>\<open>forgetDevice\<close>, \<^verbatim>\<open>setDeviceStatusRemembered\<close>,
  \<^verbatim>\<open>setDeviceStatusNotRemembered\<close>, \<^verbatim>\<open>listDevices\<close> and \<^verbatim>\<open>globalSignOut\<close>, call
  \<^verbatim>\<open>callback.onFailure\<close> and \<^verbatim>\<open>callback.onSuccess\<close> or \<^verbatim>\<open>callback.inputVerificationCode\<close>
  on the other path: given the object with those methods that this path needs, the call of
  \<^verbatim>\<open>callback\<close> itself raises a TypeError and the error of the claim is not delivered.
\<close>

theorem handler_callback_not_authenticated:
  "getAttributeVerificationCode e (JStr ''email'') handlerCallback alice (freshWorld rs)
     = (alice, freshWorld rs, Threw TypeError)
   \<and> verifyAttribute e (JStr ''email'') (JStr ''123456'') handlerCallback alice (freshWorld rs)
     = (alice, freshWorld rs, Threw TypeError)
   \<and> getDevice e handlerCallback alice (freshWorld rs) = (alice, freshWorld rs, Threw TypeError)
   \<and> forgetDevice e handlerCallback alice (freshWorld rs) = (alice, freshWorld rs, Threw TypeError)
   \<and> setDeviceStatusRemembered e handlerCallback alice (freshWorld rs)
     = (alice, freshWorld rs, Threw TypeError)
   \<and> setDeviceStatusNotRemembered e handlerCallback alice (freshWorld rs)
     = (alice, freshWorld rs, Threw TypeError)
   \<and> listDevices e (JNum 10) JNull handlerCallback alice (freshWorld rs)
     = (alice, freshWorld rs, Threw TypeError)
   \<and> globalSignOut e handlerCallback alice (freshWorld rs) = (alice, freshWorld rs, Threw TypeError)"
proof -
  have "signInUserSession alice = None" by (simp add: alice_def)
  then have h: "signInUserSession alice = None \<or>
      (\<exists>s. signInUserSession alice = Some s \<and> \<not> isValid e s)" by simp
  have n: "notAuthenticated handlerCallback = Threw TypeError"
    by (simp add: notAuthenticated_delivery handlerCallback_def)
  show ?thesis
    using protected_operations_without_session[OF h, where w = "freshWorld rs" and cb = handlerCallback]
    by (simp add: n)
qed

text \<open>
  Claim C10. When the provider call of \<^verbatim>\<open>forgetDevice\<close> succeeds, whatever the callback,
  \<^verbatim>\<open>deviceKey\<close> and \<^verbatim>\<open>randomPassword\<close> are
  \<^verbatim>\<open>null\<close> and the three device entries are removed from the storage, while the field
  \<^verbatim>\<open>deviceGroupKey\<close> keeps its value, the assignment going to \<^verbatim>\<open>deviceGroupkey\<close>: a
  \<^verbatim>\<open>getDeviceResponse\<close> that follows still builds its helper for the old group key.
\<close>

theorem forgetDevice_leaves_deviceGroupKey:
  assumes "signInUserSession u = Some s" and "isValid e s"
    and "script w = r # rs" and "\<not> truthy (err r)"
  shows "forgetDevice e cb u w =
           (u\<lparr>deviceKey := JNull, deviceGroupkey := JNull, randomPassword := JNull\<rparr>,
            w\<lparr>storage := (storage w)(userKey u ''deviceKey'' := None,
                                       userKey u ''randomPasswordKey'' := None,
                                       userKey u ''deviceGroupKey'' := None),
               sent := sent w @ [\<lparr>operation = ''forgetDevice'',
                                   params = JObj [(''AccessToken'', accessToken s),
                                                  (''DeviceKey'', deviceKey u)]\<rparr>],
               script := rs\<rparr>,
            if ''onSuccess'' \<in> set (methods cb) then onSuccess [Val (JStr ''SUCCESS'')]
            else Threw TypeError)
       \<and> deviceGroupKey (fst (forgetDevice e cb u w)) = deviceGroupKey u
       \<and> deviceKey (fst (forgetDevice e cb u w)) = JNull
       \<and> randomPassword (fst (forgetDevice e cb u w)) = JNull
       \<and> getProp (getProp (params (hd (sent (fst (snd
            (getDeviceResponse e (fst (forgetDevice e cb u w)) (freshWorld []))))))) ''ChallengeResponses'')
            ''SRP_A'' = JStr (largeA e (deviceGroupKey u))"
proof -
  have v: "validSession e u = Some s"
    using assms(1,2) by (simp add: validSession_def)
  have eq: "forgetDevice e cb u w =
           (u\<lparr>deviceKey := JNull, deviceGroupkey := JNull, randomPassword := JNull\<rparr>,
            w\<lparr>storage := (storage w)(userKey u ''deviceKey'' := None,
                                       userKey u ''randomPasswordKey'' := None,
                                       userKey u ''deviceGroupKey'' := None),
               sent := sent w @ [\<lparr>operation = ''forgetDevice'',
                                   params = JObj [(''AccessToken'', accessToken s),
                                                  (''DeviceKey'', deviceKey u)]\<rparr>],
               script := rs\<rparr>,
            if ''onSuccess'' \<in> set (methods cb) then onSuccess [Val (JStr ''SUCCESS'')]
            else Threw TypeError)"
    using assms(3,4)
    by (simp add: forgetDevice_def v andThen_request onForgetDevice_def Let_def
        clearCachedDeviceKeyAndPassword_def removeItem_def callOnSuccess_def)
  show ?thesis
    by (simp add: eq getDeviceResponse_def Let_def andThen_request freshWorld_def)
qed

text \<open>The theorem at a user with a remembered device.\<close>

theorem forgetDevice_leaves_deviceGroupKey_witness:
  "forgetDevice testEnv handlerCallback
          (alice\<lparr>signInUserSession := Some validTokens, deviceKey := JStr ''device-1'',
                  deviceGroupKey := JStr ''group-1'', randomPassword := JStr ''random-password''\<rparr>)
          \<lparr>storage = [''CognitoIdentityServiceProvider.c1.alice.deviceKey'' \<mapsto> ''device-1'',
                      ''CognitoIdentityServiceProvider.c1.alice.deviceGroupKey'' \<mapsto> ''group-1''],
           sent = [], script = [\<lparr>err = JNull, data = JObj []\<rparr>]\<rparr>
     = (alice\<lparr>signInUserSession := Some validTokens, deviceKey := JNull,
              deviceGroupKey := JStr ''group-1'', deviceGroupkey := JNull, randomPassword := JNull\<rparr>,
        \<lparr>storage = Map.empty,
         sent = [\<lparr>operation = ''forgetDevice'',
                  params = JObj [(''AccessToken'', JStr ''access-1''),
                                 (''DeviceKey'', JStr ''device-1'')]\<rparr>],
         script = []\<rparr>,
        onSuccess [Val (JStr ''SUCCESS'')])"
proof -
  have h: "signInUserSession (alice\<lparr>signInUserSession := Some validTokens, deviceKey := JStr ''device-1'',
                  deviceGroupKey := JStr ''group-1'', randomPassword := JStr ''random-password''\<rparr>)
             = Some validTokens"
    "isValid testEnv validTokens"
    "script \<lparr>storage = [''CognitoIdentityServiceProvider.c1.alice.deviceKey'' \<mapsto> ''device-1'',
                      ''CognitoIdentityServiceProvider.c1.alice.deviceGroupKey'' \<mapsto> ''group-1''],
           sent = [], script = [\<lparr>err = JNull, data = JObj []\<rparr>]\<rparr> = \<lparr>err = JNull, data = JObj []\<rparr> # []"
    "\<not> truthy (err \<lparr>err = JNull, data = JObj []\<rparr>)"
    by (simp_all add: testEnv_def validTokens_def)
  show ?thesis
    using forgetDevice_leaves_deviceGroupKey[OF h, where cb = handlerCallback]
    by (simp add: alice_def handlerCallback_def userKey_def validTokens_def fun_eq_iff)
qed

end
